theory Spec2Isabelle
  imports Complex_Main "HOL-Library.Sublist" "HOL-Library.Monad_Syntax"
begin

section \<open>Python values used by main.py\<close>

text \<open>
  A Python \<open>str\<close> is a sequence of Unicode code points: slicing and \<open>len\<close> count code
  points, so a string is a list of code-point numbers. \<open>lit\<close> embeds an ASCII literal.
\<close>

type_synonym pystr = "nat list"

definition lit :: "string \<Rightarrow> pystr" where
  "lit s = map of_char s"

text \<open>Truthiness of an \<open>Optional[str]\<close>: \<open>None\<close> and the empty string are falsy.\<close>

definition truthy :: "pystr option \<Rightarrow> bool" where
  "truthy v = (case v of None \<Rightarrow> False | Some s \<Rightarrow> s \<noteq> [])"

text \<open>\<open>x or ''\<close> on an \<open>Optional[str]\<close>.\<close>

definition or_empty :: "pystr option \<Rightarrow> pystr" where
  "or_empty v = (case v of None \<Rightarrow> [] | Some s \<Rightarrow> s)"

text \<open>
  An instance of \<open>Exception\<close>, identified by the text \<open>str(e)\<close> gives. Exceptions outside
  the \<open>Exception\<close> hierarchy (\<open>KeyboardInterrupt\<close>, \<open>SystemExit\<close>) are not modelled.
\<close>

datatype exn = Exn (exn_text: pystr)

section \<open>The outside world: environment, network, document store\<close>

record mail =
  mail_from :: pystr
  mail_to :: "pystr list"
  mail_subject :: pystr
  mail_html :: pystr

datatype payload = Json_payload mail | Form_payload mail

record http_request =
  url :: pystr
  headers :: "(pystr \<times> pystr) list"
  basic_auth :: "(pystr \<times> pystr) option"
  body :: payload
  timeout :: nat

text \<open>
  What \<open>requests.post\<close> does with a request: it returns a response with a status code, or
  raises (connection error, timeout).
\<close>

datatype http_outcome = Responded nat | Failed exn

text \<open>
  \<open>class LeadIn(BaseModel)\<close>: the validated lead. \<open>model_dump\<close> gives the dict of
  these twelve fields, so the record also stands for the document handed to the store.
\<close>

record LeadIn =
  name :: pystr
  email :: pystr
  phone :: "pystr option"
  company :: "pystr option"
  message :: "pystr option"
  city :: "pystr option"
  state :: "pystr option"
  country :: "pystr option"
  source :: "pystr option"
  utm_source :: "pystr option"
  utm_medium :: "pystr option"
  utm_campaign :: "pystr option"

text \<open>
  The handle \<open>db\<close> of the module \<open>database\<close>, as \<open>test_database\<close> uses it:
  \<open>getattr(db, 'name', None)\<close> and \<open>db.list_collection_names()\<close>, which returns a list
  of names or raises. Importing \<open>db\<close> raises, gives \<open>None\<close>, or gives a handle.
\<close>

record db_handle =
  name_attr :: "pystr option"
  list_collection_names :: "exn + pystr list"

datatype db_import = Import_raises exn | Db_none | Db_handle db_handle

text \<open>
  The world a handler runs in, everything main.py does not define itself.
  \<open>environ\<close> is the process environment. \<open>net\<close> decides the outcome of a request from
  the requests already sent and the request itself; \<open>sent\<close> is the trace of the requests
  sent so far. \<open>store\<close> is \<open>database.create_document\<close>: from the calls already made, the
  collection and the document it returns the new identifier or raises; \<open>written\<close> is the
  trace of these calls. \<open>db_module\<close> is what \<open>from database import db\<close> gives.
  \<open>validate_email\<close> is the email validator behind pydantic's \<open>EmailStr\<close>: the normalised
  address, or \<open>None\<close> when it rejects the string. \<open>repr_str\<close> is Python's \<open>repr\<close> of a
  \<open>str\<close>.
\<close>

record world =
  environ :: "string \<rightharpoonup> pystr"
  net :: "http_request list \<Rightarrow> http_request \<Rightarrow> http_outcome"
  sent :: "http_request list"
  store :: "(pystr \<times> LeadIn) list \<Rightarrow> pystr \<Rightarrow> LeadIn \<Rightarrow> exn + pystr"
  written :: "(pystr \<times> LeadIn) list"
  db_module :: db_import
  validate_email :: "pystr \<Rightarrow> pystr option"
  repr_str :: "pystr \<Rightarrow> pystr"

definition getenv :: "world \<Rightarrow> string \<Rightarrow> pystr option" where
  "getenv w k = environ w k"

definition getenv_default :: "world \<Rightarrow> string \<Rightarrow> pystr \<Rightarrow> pystr" where
  "getenv_default w k d = (case environ w k of None \<Rightarrow> d | Some v \<Rightarrow> v)"

definition requests_post :: "world \<Rightarrow> http_request \<Rightarrow> (exn + nat) \<times> world" where
  "requests_post w r =
     (let w' = w\<lparr>sent := sent w @ [r]\<rparr>
      in case net w (sent w) r of
           Failed e \<Rightarrow> (Inl e, w')
         | Responded s \<Rightarrow> (Inr s, w'))"

definition create_document :: "world \<Rightarrow> pystr \<Rightarrow> LeadIn \<Rightarrow> (exn + pystr) \<times> world" where
  "create_document w collection_name doc =
     (store w (written w) collection_name doc,
      w\<lparr>written := written w @ [(collection_name, doc)]\<rparr>)"

text \<open>\<open>Response.raise_for_status\<close> raises \<open>HTTPError\<close> for a 4xx or 5xx status.\<close>

definition raise_for_status :: "nat \<Rightarrow> exn + unit" where
  "raise_for_status s =
     (if 400 \<le> s \<and> s < 600 then Inl (Exn (lit ''HTTPError'')) else Inr ())"

section \<open>send_auto_email\<close>

definition resend_request :: "pystr \<Rightarrow> pystr \<Rightarrow> pystr \<Rightarrow> pystr \<Rightarrow> pystr \<Rightarrow> http_request" where
  "resend_request resend_api_key from_email to_email subject html =
     \<lparr>url = lit ''https://api.resend.com/emails'',
      headers = [(lit ''Authorization'', lit ''Bearer '' @ resend_api_key),
                 (lit ''Content-Type'', lit ''application/json'')],
      basic_auth = None,
      body = Json_payload
        \<lparr>mail_from = lit ''A Plus Charge <'' @ from_email @ lit ''>'',
         mail_to = [to_email], mail_subject = subject, mail_html = html\<rparr>,
      timeout = 10\<rparr>"

definition mailgun_request :: "pystr \<Rightarrow> pystr \<Rightarrow> pystr \<Rightarrow> pystr \<Rightarrow> pystr \<Rightarrow> pystr \<Rightarrow> http_request" where
  "mailgun_request mailgun_api_key mailgun_domain from_email to_email subject html =
     \<lparr>url = lit ''https://api.mailgun.net/v3/'' @ mailgun_domain @ lit ''/messages'',
      headers = [],
      basic_auth = Some (lit ''api'', mailgun_api_key),
      body = Form_payload
        \<lparr>mail_from = lit ''A Plus Charge <'' @ from_email @ lit ''>'',
         mail_to = [to_email], mail_subject = subject, mail_html = html\<rparr>,
      timeout = 10\<rparr>"

text \<open>One provider attempt: post the request, then \<open>raise_for_status\<close>, then \<open>return\<close>.\<close>

definition attempt :: "world \<Rightarrow> http_request \<Rightarrow> (exn + unit) \<times> world" where
  "attempt w r =
     (case requests_post w r of
        (Inl e, w') \<Rightarrow> (Inl e, w')
      | (Inr s, w') \<Rightarrow> (raise_for_status s, w'))"

text \<open>The body of the \<open>try\<close> block of \<open>send_auto_email\<close>.\<close>

definition send_auto_email_try :: "world \<Rightarrow> pystr \<Rightarrow> pystr \<Rightarrow> pystr \<Rightarrow> (exn + unit) \<times> world" where
  "send_auto_email_try w to_email subject html =
     (let resend_api_key = getenv w ''RESEND_API_KEY'';
          mailgun_api_key = getenv w ''MAILGUN_API_KEY'';
          mailgun_domain = getenv w ''MAILGUN_DOMAIN'';
          from_email = getenv_default w ''FROM_EMAIL'' (lit ''noreply@apluscharge.com'')
      in if truthy resend_api_key
         then attempt w (resend_request (the resend_api_key) from_email to_email subject html)
         else if truthy mailgun_api_key \<and> truthy mailgun_domain
         then attempt w (mailgun_request (the mailgun_api_key) (the mailgun_domain)
                           from_email to_email subject html)
         else (Inr (), w))"

text \<open>\<open>except Exception: pass\<close>: whatever the block raised is dropped.\<close>

definition send_auto_email :: "world \<Rightarrow> pystr \<Rightarrow> pystr \<Rightarrow> pystr \<Rightarrow> (exn + unit) \<times> world" where
  "send_auto_email w to_email subject html =
     (case send_auto_email_try w to_email subject html of
        (Inl e, w') \<Rightarrow> (Inr (), w')
      | (Inr u, w') \<Rightarrow> (Inr (), w'))"

text \<open>Which endpoint a request goes to.\<close>

definition is_resend :: "http_request \<Rightarrow> bool" where
  "is_resend r = (url r = lit ''https://api.resend.com/emails'')"

definition is_mailgun :: "http_request \<Rightarrow> bool" where
  "is_mailgun r = prefix (lit ''https://api.mailgun.net/v3/'') (url r)"

text \<open>A provider attempt fails when the post raises or the status is 4xx or 5xx.\<close>

definition attempt_fails :: "world \<Rightarrow> http_request \<Rightarrow> bool" where
  "attempt_fails w r =
     (case net w (sent w) r of Failed e \<Rightarrow> True | Responded s \<Rightarrow> 400 \<le> s \<and> s < 600)"

section \<open>create_lead\<close>

definition nl :: pystr where
  "nl = [10]"

definition indent :: "nat \<Rightarrow> pystr" where
  "indent n = replicate n 32"

text \<open>The three replacement fields of the template that are expressions of their own.\<close>

definition phone_item :: "LeadIn \<Rightarrow> pystr" where
  "phone_item lead =
     (if truthy (phone lead) then lit ''<li>Phone: '' @ the (phone lead) @ lit ''</li>'' else [])"

definition company_item :: "LeadIn \<Rightarrow> pystr" where
  "company_item lead =
     (if truthy (company lead) then lit ''<li>Company: '' @ the (company lead) @ lit ''</li>''
      else [])"

definition citystate_item :: "LeadIn \<Rightarrow> pystr" where
  "citystate_item lead =
     lit ''<li>City/State: '' @ or_empty (city lead) @ lit '' '' @ or_empty (state lead)
       @ lit ''</li>''"

definition html_body :: "LeadIn \<Rightarrow> pystr" where
  "html_body lead =
     nl @ indent 8 @ lit ''<div style='' @ [39] @ lit ''font-family:Inter,Arial,sans-serif''
        @ [39] @ lit ''>'' @
     nl @ indent 8 @ lit ''<h2>Hi '' @ name lead @ lit '',</h2>'' @
     nl @ indent 8 @ lit ''<p>Thanks for reaching out to A Plus Charge. Our team will get back to you shortly.</p>'' @
     nl @ indent 8 @ lit ''<p><strong>Summary:</strong></p>'' @
     nl @ indent 8 @ lit ''<ul>'' @
     nl @ indent 12 @ lit ''<li>Email: '' @ email lead @ lit ''</li>'' @
     nl @ indent 12 @ phone_item lead @
     nl @ indent 12 @ company_item lead @
     nl @ indent 12 @ citystate_item lead @
     nl @ indent 8 @ lit ''</ul>'' @
     nl @ indent 8 @ lit ''<p>Regards,<br/>A Plus Charge Team</p>'' @
     nl @ indent 8 @ lit ''</div>'' @
     nl @ indent 8"

text \<open>
  A text without the character \<open><\<close> (code point 60), and a lead whose fields that go into
  the body are all such texts: nothing a plain lead supplies can open a tag.
\<close>

definition plain_text :: "pystr \<Rightarrow> bool" where
  "plain_text s = (60 \<notin> set s)"

definition plain_fields :: "LeadIn \<Rightarrow> bool" where
  "plain_fields lead =
     (plain_text (name lead) \<and> plain_text (email lead) \<and> plain_text (or_empty (phone lead)) \<and>
      plain_text (or_empty (company lead)) \<and> plain_text (or_empty (city lead)) \<and>
      plain_text (or_empty (state lead)))"

text \<open>\<open>str\<close> of the dict \<open>lead.model_dump()\<close>.\<close>

definition repr_opt :: "world \<Rightarrow> pystr option \<Rightarrow> pystr" where
  "repr_opt w v = (case v of None \<Rightarrow> lit ''None'' | Some s \<Rightarrow> repr_str w s)"

definition repr_item :: "string \<Rightarrow> pystr \<Rightarrow> pystr" where
  "repr_item k v = [39] @ lit k @ [39] @ lit '': '' @ v"

definition str_model_dump :: "world \<Rightarrow> LeadIn \<Rightarrow> pystr" where
  "str_model_dump w lead =
     lit ''{'' @
     repr_item ''name'' (repr_str w (name lead)) @ lit '', '' @
     repr_item ''email'' (repr_str w (email lead)) @ lit '', '' @
     repr_item ''phone'' (repr_opt w (phone lead)) @ lit '', '' @
     repr_item ''company'' (repr_opt w (company lead)) @ lit '', '' @
     repr_item ''message'' (repr_opt w (message lead)) @ lit '', '' @
     repr_item ''city'' (repr_opt w (city lead)) @ lit '', '' @
     repr_item ''state'' (repr_opt w (state lead)) @ lit '', '' @
     repr_item ''country'' (repr_opt w (country lead)) @ lit '', '' @
     repr_item ''source'' (repr_opt w (source lead)) @ lit '', '' @
     repr_item ''utm_source'' (repr_opt w (utm_source lead)) @ lit '', '' @
     repr_item ''utm_medium'' (repr_opt w (utm_medium lead)) @ lit '', '' @
     repr_item ''utm_campaign'' (repr_opt w (utm_campaign lead)) @
     lit ''}''"

text \<open>What the handler returns: \<open>{"status": "success", "id": lead_id}\<close>.\<close>

record lead_created =
  status :: pystr
  ident :: pystr

datatype http_exception = HTTPException (status_code: nat) (detail: pystr)

text \<open>The body of the \<open>try\<close> block of \<open>create_lead\<close>.\<close>

definition create_lead_try :: "world \<Rightarrow> LeadIn \<Rightarrow> (exn + lead_created) \<times> world" where
  "create_lead_try w lead =
     (case create_document w (lit ''lead'') lead of
        (Inl e, w1) \<Rightarrow> (Inl e, w1)
      | (Inr lead_id, w1) \<Rightarrow>
          (let subject = lit ''Thanks for contacting A Plus Charge''
           in case send_auto_email w1 (email lead) subject (html_body lead) of
                (Inl e, w2) \<Rightarrow> (Inl e, w2)
              | (Inr u, w2) \<Rightarrow>
                  (let notify_email = getenv w2 ''NOTIFY_EMAIL''
                   in if truthy notify_email
                      then case send_auto_email w2 (the notify_email)
                                  (lit ''New Lead: '' @ name lead)
                                  (lit ''New website lead:<br/><pre>'' @ str_model_dump w2 lead
                                     @ lit ''</pre>'') of
                             (Inl e, w3) \<Rightarrow> (Inl e, w3)
                           | (Inr u', w3) \<Rightarrow>
                               (Inr \<lparr>status = lit ''success'', ident = lead_id\<rparr>, w3)
                      else (Inr \<lparr>status = lit ''success'', ident = lead_id\<rparr>, w2))))"

text \<open>\<open>except Exception as e: raise HTTPException(status_code=500, detail=str(e))\<close>.\<close>

definition create_lead :: "world \<Rightarrow> LeadIn \<Rightarrow> (http_exception + lead_created) \<times> world" where
  "create_lead w lead =
     (case create_lead_try w lead of
        (Inl e, w') \<Rightarrow> (Inl (HTTPException 500 (exn_text e)), w')
      | (Inr r, w') \<Rightarrow> (Inr r, w'))"

section \<open>The route POST /api/leads\<close>

text \<open>The request body as \<open>json.loads\<close> gives it.\<close>

datatype json =
  JNull | JBool bool | JNumber rat | JString pystr | JArray "json list"
  | JObject "(string \<times> json) list"

text \<open>A key that occurs twice in a JSON object keeps its last value.\<close>

definition obj_get :: "(string \<times> json) list \<Rightarrow> string \<Rightarrow> json option" where
  "obj_get kvs k = map_of (rev kvs) k"

text \<open>
  A field declared \<open>str\<close> with no default is required and takes a JSON string only (also
  the empty one). A field declared \<open>Optional[str] = d\<close> takes a string or \<open>null\<close>, and is
  \<open>d\<close> when the key is absent. \<open>None\<close> is a validation error.
\<close>

definition str_field :: "(string \<times> json) list \<Rightarrow> string \<Rightarrow> pystr option" where
  "str_field kvs k = (case obj_get kvs k of Some (JString s) \<Rightarrow> Some s | _ \<Rightarrow> None)"

definition opt_str_field ::
  "(string \<times> json) list \<Rightarrow> string \<Rightarrow> pystr option \<Rightarrow> pystr option option" where
  "opt_str_field kvs k d =
     (case obj_get kvs k of
        None \<Rightarrow> Some d
      | Some JNull \<Rightarrow> Some None
      | Some (JString s) \<Rightarrow> Some (Some s)
      | Some _ \<Rightarrow> None)"

definition validate_LeadIn :: "world \<Rightarrow> json \<Rightarrow> LeadIn option" where
  "validate_LeadIn w j =
     (case j of
        JObject kvs \<Rightarrow>
          do {
            n \<leftarrow> str_field kvs ''name'';
            e0 \<leftarrow> str_field kvs ''email'';
            e \<leftarrow> validate_email w e0;
            ph \<leftarrow> opt_str_field kvs ''phone'' None;
            co \<leftarrow> opt_str_field kvs ''company'' None;
            me \<leftarrow> opt_str_field kvs ''message'' None;
            ci \<leftarrow> opt_str_field kvs ''city'' None;
            st \<leftarrow> opt_str_field kvs ''state'' None;
            cn \<leftarrow> opt_str_field kvs ''country'' (Some (lit ''India''));
            so \<leftarrow> opt_str_field kvs ''source'' (Some (lit ''website''));
            us \<leftarrow> opt_str_field kvs ''utm_source'' None;
            um \<leftarrow> opt_str_field kvs ''utm_medium'' None;
            uc \<leftarrow> opt_str_field kvs ''utm_campaign'' None;
            Some \<lparr>name = n, email = e, phone = ph, company = co, message = me, city = ci,
                  state = st, country = cn, source = so, utm_source = us, utm_medium = um,
                  utm_campaign = uc\<rparr>
          }
      | _ \<Rightarrow> None)"

datatype content = Lead_created lead_created | Detail pystr | Validation_errors

record http_response =
  code :: nat
  content :: content

text \<open>
  The route: the body is validated against \<open>LeadIn\<close> first; a validation error is answered
  with 422 and the handler is not called. An \<open>HTTPException\<close> of the handler becomes a
  response with its status code and detail.
\<close>

definition post_api_leads :: "world \<Rightarrow> json \<Rightarrow> http_response \<times> world" where
  "post_api_leads w j =
     (case validate_LeadIn w j of
        None \<Rightarrow> (\<lparr>code = 422, content = Validation_errors\<rparr>, w)
      | Some lead \<Rightarrow>
          (case create_lead w lead of
             (Inl (HTTPException c d), w') \<Rightarrow> (\<lparr>code = c, content = Detail d\<rparr>, w')
           | (Inr r, w') \<Rightarrow> (\<lparr>code = 200, content = Lead_created r\<rparr>, w')))"

text \<open>The conditions of the specification on a lead payload.\<close>

definition name_missing_or_empty :: "json \<Rightarrow> bool" where
  "name_missing_or_empty j =
     (case j of
        JObject kvs \<Rightarrow>
          (case obj_get kvs ''name'' of None \<Rightarrow> True | Some (JString s) \<Rightarrow> s = [] | Some _ \<Rightarrow> False)
      | _ \<Rightarrow> False)"

definition name_missing :: "json \<Rightarrow> bool" where
  "name_missing j =
     (case j of
        JObject kvs \<Rightarrow>
          (case obj_get kvs ''name'' of None \<Rightarrow> True | Some (JString s) \<Rightarrow> False | Some _ \<Rightarrow> True)
      | _ \<Rightarrow> True)"

definition email_invalid :: "world \<Rightarrow> json \<Rightarrow> bool" where
  "email_invalid w j =
     (case j of
        JObject kvs \<Rightarrow>
          (case obj_get kvs ''email'' of
             Some (JString s) \<Rightarrow> validate_email w s = None
           | _ \<Rightarrow> True)
      | _ \<Rightarrow> True)"

section \<open>test_database\<close>

datatype pyval = VNone | VStr pystr | VList "pystr list"

definition is_str :: "pyval option \<Rightarrow> bool" where
  "is_str v = (case v of Some (VStr s) \<Rightarrow> True | _ \<Rightarrow> False)"

definition is_str_list :: "pyval option \<Rightarrow> bool" where
  "is_str_list v = (case v of Some (VList xs) \<Rightarrow> True | _ \<Rightarrow> False)"

definition check_mark :: pystr where "check_mark = [0x2705]"
definition cross_mark :: pystr where "cross_mark = [0x274C]"
definition warning_sign :: pystr where "warning_sign = [0x26A0, 0xFE0F]"

definition initial_response :: "string \<rightharpoonup> pyval" where
  "initial_response =
     [''backend'' \<mapsto> VStr (check_mark @ lit '' Running''),
      ''database'' \<mapsto> VStr (cross_mark @ lit '' Not Available''),
      ''database_url'' \<mapsto> VNone,
      ''database_name'' \<mapsto> VNone,
      ''connection_status'' \<mapsto> VStr (lit ''Not Connected''),
      ''collections'' \<mapsto> VList []]"

text \<open>
  The body of the outer \<open>try\<close> block: the exception it raises, if any, and the response
  dict as the block leaves it.
\<close>

definition test_database_try :: "world \<Rightarrow> (exn + unit) \<times> (string \<rightharpoonup> pyval)" where
  "test_database_try w =
     (let response = initial_response
      in case db_module w of
           Import_raises e \<Rightarrow> (Inl e, response)
         | Db_none \<Rightarrow>
             (Inr (), response(''database'' \<mapsto>
                        VStr (warning_sign @ lit '' Available but not initialized'')))
         | Db_handle db \<Rightarrow>
             (let response = response(''database'' \<mapsto> VStr (check_mark @ lit '' Available''));
                  response = response(''database_url'' \<mapsto>
                    VStr (if truthy (getenv w ''DATABASE_URL'') then check_mark @ lit '' Set''
                          else cross_mark @ lit '' Not Set''));
                  response = response(''database_name'' \<mapsto>
                    VStr (if truthy (name_attr db) then the (name_attr db)
                          else check_mark @ lit '' Connected''));
                  response = response(''connection_status'' \<mapsto> VStr (lit ''Connected''))
              in case list_collection_names db of
                   Inr collections \<Rightarrow>
                     (let response = response(''collections'' \<mapsto> VList (take 10 collections));
                          response = response(''database'' \<mapsto>
                            VStr (check_mark @ lit '' Connected & Working''))
                      in (Inr (), response))
                 | Inl e \<Rightarrow>
                     (Inr (), response(''database'' \<mapsto>
                        VStr (warning_sign @ lit '' Connected but Error: ''
                                @ take 80 (exn_text e))))))"

definition test_database :: "world \<Rightarrow> exn + (string \<rightharpoonup> pyval)" where
  "test_database w =
     (case test_database_try w of
        (Inl e, response) \<Rightarrow>
          Inr (response(''database'' \<mapsto> VStr (cross_mark @ lit '' Error: '' @ take 80 (exn_text e))))
      | (Inr u, response) \<Rightarrow> Inr response)"

section \<open>Python floats\<close>

text \<open>
  A Python \<open>float\<close> is an IEEE 754 binary64 value: a finite number, an infinity or NaN.
  A finite value is kept as the rational it denotes. The two zeros are identified: they
  compare equal, \<open>calculate_roi\<close> never divides by one, and no operation used here tells
  them apart except in the sign of a zero result.
\<close>

datatype pyfloat = Finite rat | PosInf | NegInf | NaN

text \<open>Rounding a rational to the nearest integer, ties to the even one.\<close>

definition round_half_even :: "rat \<Rightarrow> int" where
  "round_half_even q =
     (let f = \<lfloor>q\<rfloor>; d = q - of_int f
      in if d < 1 / 2 then f else if 1 / 2 < d then f + 1 else if even f then f else f + 1)"

text \<open>\<open>log2floor n\<close> is the position of the highest set bit of \<open>n\<close>.\<close>

fun log2floor :: "nat \<Rightarrow> nat" where
  "log2floor n = (if n < 2 then 0 else Suc (log2floor (n div 2)))"

declare log2floor.simps [simp del]

text \<open>The binary exponent of a positive rational: \<open>2 powi ilog2 a \<le> a < 2 powi (ilog2 a + 1)\<close>.\<close>

definition ilog2 :: "rat \<Rightarrow> int" where
  "ilog2 a =
     (if 1 \<le> a then int (log2floor (nat \<lfloor>a\<rfloor>))
      else - int (Suc (log2floor (nat (\<lceil>1 / a\<rceil> - 1)))))"

text \<open>
  The largest finite binary64 value is \<open>2 ^ 1024 - 2 ^ 971\<close>; a magnitude of at least
  \<open>2 ^ 1024 - 2 ^ 970\<close> rounds to infinity.
\<close>

definition overflow_threshold :: rat where
  "overflow_threshold = 2 ^ 1024 - 2 ^ 970"

definition max_double :: rat where
  "max_double = 2 ^ 1024 - 2 ^ 971"

text \<open>
  Rounding an exact result to binary64, to nearest with ties to even: 53 significant bits
  at the exponent of the value, the exponent not below -1022 (below it the values are
  subnormal and the spacing stays \<open>2 powi (- 1074)\<close>).
\<close>

definition fl :: "rat \<Rightarrow> pyfloat" where
  "fl q =
     (let a = \<bar>q\<bar>
      in if q = 0 then Finite 0
         else if overflow_threshold \<le> a then (if 0 < q then PosInf else NegInf)
         else (let e = max (ilog2 a) (- 1022);
                   u = 2 powi (e - 52);
                   m = round_half_even (a / u)
               in Finite (sgn q * (of_int m * u))))"

text \<open>Float arithmetic: the exact result rounded, and the IEEE rules for infinities and NaN.\<close>

fun fsign :: "pyfloat \<Rightarrow> int" where
  "fsign (Finite q) = (if 0 < q then 1 else if q < 0 then - 1 else 0)"
| "fsign PosInf = 1"
| "fsign NegInf = - 1"
| "fsign NaN = 0"

definition signed_inf :: "int \<Rightarrow> pyfloat" where
  "signed_inf s = (if s = 0 then NaN else if 0 < s then PosInf else NegInf)"

fun fmul :: "pyfloat \<Rightarrow> pyfloat \<Rightarrow> pyfloat" where
  "fmul (Finite a) (Finite b) = fl (a * b)"
| "fmul NaN y = NaN"
| "fmul x NaN = NaN"
| "fmul x y = signed_inf (fsign x * fsign y)"

fun fadd :: "pyfloat \<Rightarrow> pyfloat \<Rightarrow> pyfloat" where
  "fadd (Finite a) (Finite b) = fl (a + b)"
| "fadd NaN y = NaN"
| "fadd x NaN = NaN"
| "fadd PosInf NegInf = NaN"
| "fadd NegInf PosInf = NaN"
| "fadd PosInf y = PosInf"
| "fadd NegInf y = NegInf"
| "fadd x PosInf = PosInf"
| "fadd x NegInf = NegInf"

fun fneg :: "pyfloat \<Rightarrow> pyfloat" where
  "fneg (Finite a) = Finite (- a)"
| "fneg PosInf = NegInf"
| "fneg NegInf = PosInf"
| "fneg NaN = NaN"

definition fsub :: "pyfloat \<Rightarrow> pyfloat \<Rightarrow> pyfloat" where
  "fsub x y = fadd x (fneg y)"

text \<open>
  The exceptions the arithmetic of \<open>calculate_roi\<close> can raise: \<open>/\<close> raises
  \<open>ZeroDivisionError\<close> on a zero divisor, whatever the dividend; \<open>round(x, 2)\<close> raises
  \<open>OverflowError\<close> when the rounded value is too large for a float.
\<close>

datatype py_error = ZeroDivisionError | OverflowError

fun fdiv :: "pyfloat \<Rightarrow> pyfloat \<Rightarrow> py_error + pyfloat" where
  "fdiv x (Finite b) =
     (if b = 0 then Inl ZeroDivisionError
      else case x of
             Finite a \<Rightarrow> Inr (fl (a / b))
           | NaN \<Rightarrow> Inr NaN
           | _ \<Rightarrow> Inr (signed_inf (fsign x * fsign (Finite b))))"
| "fdiv NaN y = Inr NaN"
| "fdiv x NaN = Inr NaN"
| "fdiv (Finite a) y = Inr (Finite 0)"
| "fdiv x y = Inr NaN"

text \<open>\<open>x > 0\<close>: false for NaN.\<close>

fun gt_zero :: "pyfloat \<Rightarrow> bool" where
  "gt_zero (Finite q) = (0 < q)"
| "gt_zero PosInf = True"
| "gt_zero NegInf = False"
| "gt_zero NaN = False"

text \<open>
  \<open>round(x, 2)\<close>: the exact value of \<open>x\<close> rounded to two decimals, ties to even, and the
  result converted to the nearest float; infinities and NaN round to themselves.
\<close>

fun round2 :: "pyfloat \<Rightarrow> py_error + pyfloat" where
  "round2 (Finite q) =
     (case fl (of_int (round_half_even (q * 100)) / 100) of
        Finite r \<Rightarrow> Inr (Finite r)
      | _ \<Rightarrow> Inl OverflowError)"
| "round2 x = Inr x"

section \<open>calculate_roi\<close>

record ROICalcIn =
  daily_sessions :: pyfloat
  avg_kwh_per_session :: pyfloat
  tariff_per_kwh :: pyfloat
  cost_per_kwh :: pyfloat
  station_cost :: pyfloat
  opex_per_month :: pyfloat

record ROICalcOut =
  monthly_revenue :: pyfloat
  monthly_cost :: pyfloat
  monthly_profit :: pyfloat
  payback_months :: "pyfloat option"

text \<open>The unrounded intermediates \<open>revenue\<close>, \<open>monthly_cost\<close> and \<open>profit\<close> of the handler.\<close>

definition revenue_of :: "ROICalcIn \<Rightarrow> pyfloat" where
  "revenue_of payload =
     fmul (fmul (fmul (daily_sessions payload) (Finite 30)) (avg_kwh_per_session payload))
       (tariff_per_kwh payload)"

definition monthly_cost_of :: "ROICalcIn \<Rightarrow> pyfloat" where
  "monthly_cost_of payload =
     fadd (fmul (fmul (fmul (daily_sessions payload) (Finite 30)) (avg_kwh_per_session payload))
             (cost_per_kwh payload))
       (opex_per_month payload)"

definition profit_of :: "ROICalcIn \<Rightarrow> pyfloat" where
  "profit_of payload = fsub (revenue_of payload) (monthly_cost_of payload)"

definition calculate_roi :: "ROICalcIn \<Rightarrow> py_error + ROICalcOut" where
  "calculate_roi payload =
     (let sessions_per_month = fmul (daily_sessions payload) (Finite 30);
          energy_sold = fmul sessions_per_month (avg_kwh_per_session payload);
          revenue = fmul energy_sold (tariff_per_kwh payload);
          energy_cost = fmul energy_sold (cost_per_kwh payload);
          monthly_cost = fadd energy_cost (opex_per_month payload);
          profit = fsub revenue monthly_cost
      in case (if gt_zero profit \<and> gt_zero (station_cost payload)
               then (case fdiv (station_cost payload) profit of
                       Inl err \<Rightarrow> Inl err
                     | Inr q \<Rightarrow> (case round2 q of Inl err \<Rightarrow> Inl err | Inr r \<Rightarrow> Inr (Some r)))
               else Inr None) of
           Inl err \<Rightarrow> Inl err
         | Inr payback \<Rightarrow>
             (case round2 revenue of
                Inl err \<Rightarrow> Inl err
              | Inr r1 \<Rightarrow>
                  (case round2 monthly_cost of
                     Inl err \<Rightarrow> Inl err
                   | Inr r2 \<Rightarrow>
                       (case round2 profit of
                          Inl err \<Rightarrow> Inl err
                        | Inr r3 \<Rightarrow>
                            Inr \<lparr>monthly_revenue = r1, monthly_cost = r2, monthly_profit = r3,
                                 payback_months = payback\<rparr>))))"

text \<open>The \<open>payback_months\<close> the handler computes, in terms of the intermediates.\<close>

definition payback_of :: "ROICalcIn \<Rightarrow> py_error + pyfloat option" where
  "payback_of payload =
     (if gt_zero (profit_of payload) \<and> gt_zero (station_cost payload)
      then (case fdiv (station_cost payload) (profit_of payload) of
              Inl err \<Rightarrow> Inl err
            | Inr q \<Rightarrow> (case round2 q of Inl err \<Rightarrow> Inl err | Inr r \<Rightarrow> Inr (Some r)))
      else Inr None)"

text \<open>Within the range of finite binary64 values.\<close>

definition in_range :: "pyfloat \<Rightarrow> bool" where
  "in_range x = (case x of Finite r \<Rightarrow> \<bar>r\<bar> \<le> max_double | _ \<Rightarrow> True)"

text \<open>Example payloads for the ROI calculator.\<close>

definition example_roi :: ROICalcIn where
  "example_roi =
     \<lparr>daily_sessions = Finite 10, avg_kwh_per_session = Finite 20, tariff_per_kwh = Finite 10,
      cost_per_kwh = Finite 6, station_cost = Finite 100000, opex_per_month = Finite 0\<rparr>"

definition thin_margin_roi :: ROICalcIn where
  "thin_margin_roi =
     \<lparr>daily_sessions = Finite 1, avg_kwh_per_session = Finite 1,
      tariff_per_kwh = Finite (1 / 8192), cost_per_kwh = Finite 0, station_cost = Finite 1,
      opex_per_month = Finite 0\<rparr>"


section \<open>Example worlds and leads\<close>

text \<open>
  Concrete worlds, leads and payloads on which the properties below are evaluated. In
  \<open>example_world\<close> nothing is configured, every request times out, the store accepts every
  document and the validator accepts one address.
\<close>

definition example_world :: world where
  "example_world =
     \<lparr>environ = Map.empty,
      net = (\<lambda>_ _. Failed (Exn (lit ''timed out''))),
      sent = [],
      store = (\<lambda>_ _ _. Inr (lit ''65f0c2a1'')),
      written = [],
      db_module = Db_none,
      validate_email = (\<lambda>s. if s = lit ''asha@gmail.com'' then Some s else None),
      repr_str = (\<lambda>s. [39] @ s @ [39])\<rparr>"

definition mailgun_key_only_world :: world where
  "mailgun_key_only_world = example_world\<lparr>environ := [''MAILGUN_API_KEY'' \<mapsto> lit ''key-1'']\<rparr>"

definition mailgun_world :: world where
  "mailgun_world =
     example_world
       \<lparr>environ := [''RESEND_API_KEY'' \<mapsto> [], ''MAILGUN_API_KEY'' \<mapsto> lit ''key-1'',
                    ''MAILGUN_DOMAIN'' \<mapsto> lit ''mg.apluscharge.com''],
        net := (\<lambda>_ _. Responded 200)\<rparr>"

definition both_providers_world :: "nat \<Rightarrow> world" where
  "both_providers_world s =
     example_world
       \<lparr>environ := [''RESEND_API_KEY'' \<mapsto> lit ''re_1'', ''MAILGUN_API_KEY'' \<mapsto> lit ''key-1'',
                    ''MAILGUN_DOMAIN'' \<mapsto> lit ''mg.apluscharge.com''],
        net := (\<lambda>_ _. Responded s)\<rparr>"

definition example_lead :: LeadIn where
  "example_lead =
     \<lparr>name = lit ''Asha'', email = lit ''asha@gmail.com'', phone = None, company = None,
      message = None, city = None, state = None, country = Some (lit ''India''),
      source = Some (lit ''website''), utm_source = None, utm_medium = None,
      utm_campaign = None\<rparr>"

definition example_payload :: json where
  "example_payload =
     JObject [(''name'', JString (lit ''Asha'')), (''email'', JString (lit ''asha@gmail.com''))]"

definition failing_store_world :: world where
  "failing_store_world =
     example_world\<lparr>store := (\<lambda>_ _ _. Inl (Exn (lit ''connection refused'')))\<rparr>"

definition empty_name_payload :: json where
  "empty_name_payload =
     JObject [(''name'', JString []), (''email'', JString (lit ''asha@gmail.com''))]"

definition no_name_payload :: json where
  "no_name_payload = JObject [(''email'', JString (lit ''asha@gmail.com''))]"

definition bad_email_payload :: json where
  "bad_email_payload =
     JObject [(''name'', JString (lit ''Asha'')), (''email'', JString (lit ''asha at gmail''))]"

definition example_lead_full :: LeadIn where
  "example_lead_full =
     example_lead\<lparr>phone := Some (lit ''+91 98200 00000''), company := Some (lit ''Volt Fleet''),
                  city := Some (lit ''Pune'')\<rparr>"

text \<open>The keys of the response of \<open>test_database\<close>.\<close>

definition six_fields :: "string set" where
  "six_fields =
     {''backend'', ''database'', ''database_url'', ''database_name'', ''connection_status'',
      ''collections''}"

definition broken_db_world :: world where
  "broken_db_world =
     example_world
       \<lparr>db_module := Db_handle
          \<lparr>name_attr = Some (lit ''apluscharge''),
           list_collection_names = Inl (Exn (replicate 100 120))\<rparr>\<rparr>"

section \<open>Properties of send_auto_email\<close>

lemma attempt_sent: "sent (snd (attempt w r)) = sent w @ [r]"
  by (simp add: attempt_def requests_post_def Let_def split: http_outcome.splits)

lemma attempt_rest:
  "environ (snd (attempt w r)) = environ w" "net (snd (attempt w r)) = net w"
  by (simp_all add: attempt_def requests_post_def Let_def split: http_outcome.splits)

lemma send_auto_email_snd:
  "snd (send_auto_email w t s h) = snd (send_auto_email_try w t s h)"
  by (simp add: send_auto_email_def split: prod.splits sum.splits)

lemma send_auto_email_fst: "fst (send_auto_email w t s h) = Inr ()"
  by (simp add: send_auto_email_def split: prod.splits sum.splits)

lemma resend_request_url: "is_resend (resend_request k f t s h)"
  by (simp add: is_resend_def resend_request_def)

lemma mailgun_request_url: "is_mailgun (mailgun_request k d f t s h)"
  by (simp add: is_mailgun_def mailgun_request_def)

lemma resend_not_mailgun: "is_resend r \<Longrightarrow> \<not> is_mailgun r"
  by (simp add: is_resend_def is_mailgun_def lit_def)

lemma send_auto_email_try_sent:
  "sent (snd (send_auto_email_try w t s h)) = sent w @
     (if truthy (getenv w ''RESEND_API_KEY'')
      then [resend_request (the (getenv w ''RESEND_API_KEY''))
              (getenv_default w ''FROM_EMAIL'' (lit ''noreply@apluscharge.com'')) t s h]
      else if truthy (getenv w ''MAILGUN_API_KEY'') \<and> truthy (getenv w ''MAILGUN_DOMAIN'')
      then [mailgun_request (the (getenv w ''MAILGUN_API_KEY'')) (the (getenv w ''MAILGUN_DOMAIN''))
              (getenv_default w ''FROM_EMAIL'' (lit ''noreply@apluscharge.com'')) t s h]
      else [])"
  by (simp add: send_auto_email_try_def Let_def attempt_sent)

lemma send_auto_email_try_rest:
  "environ (snd (send_auto_email_try w t s h)) = environ w"
  "net (snd (send_auto_email_try w t s h)) = net w"
  by (simp_all add: send_auto_email_try_def Let_def attempt_rest)

lemma send_auto_email_try_noop:
  "\<not> truthy (getenv w ''RESEND_API_KEY'') \<Longrightarrow>
   \<not> (truthy (getenv w ''MAILGUN_API_KEY'') \<and> truthy (getenv w ''MAILGUN_DOMAIN'')) \<Longrightarrow>
   send_auto_email_try w t s h = (Inr (), w)"
  by (auto simp add: send_auto_email_try_def Let_def)

text \<open>
  C6. \<open>send_auto_email\<close> returns normally whatever the recipient, subject, body and
  provider outcome are, and with neither a Resend key nor Mailgun credentials (key and
  domain) configured it leaves the world as it was: no request is sent.
\<close>

theorem send_auto_email_never_raises:
  "fst (send_auto_email w to_email subject html) = Inr () \<and>
   (\<not> truthy (getenv w ''RESEND_API_KEY'') \<and>
    \<not> (truthy (getenv w ''MAILGUN_API_KEY'') \<and> truthy (getenv w ''MAILGUN_DOMAIN'')) \<longrightarrow>
    snd (send_auto_email w to_email subject html) = w)"
  by (simp add: send_auto_email_fst send_auto_email_snd send_auto_email_try_noop)

theorem send_auto_email_never_raises_witness:
  "fst (send_auto_email mailgun_key_only_world
          (lit ''asha@gmail.com'') (lit ''Hello'') (lit ''<p>Hi</p>'')) = Inr () \<and>
   sent (snd (send_auto_email mailgun_key_only_world
          (lit ''asha@gmail.com'') (lit ''Hello'') (lit ''<p>Hi</p>''))) = []"
  using send_auto_email_never_raises
    [of mailgun_key_only_world "lit ''asha@gmail.com''" "lit ''Hello''" "lit ''<p>Hi</p>''"]
  by (simp add: mailgun_key_only_world_def example_world_def getenv_def truthy_def)

text \<open>
  C7. The provider is chosen from the configuration alone, in a fixed order: with a Resend
  key exactly one request is sent, to the Resend endpoint; otherwise, with both a Mailgun
  key and a Mailgun domain, exactly one request is sent, to the Mailgun endpoint;
  otherwise nothing is sent.
\<close>

theorem send_auto_email_provider_selection:
  "sent (snd (send_auto_email w to_email subject html)) = sent w @
     (if truthy (getenv w ''RESEND_API_KEY'')
      then [resend_request (the (getenv w ''RESEND_API_KEY''))
              (getenv_default w ''FROM_EMAIL'' (lit ''noreply@apluscharge.com''))
              to_email subject html]
      else if truthy (getenv w ''MAILGUN_API_KEY'') \<and> truthy (getenv w ''MAILGUN_DOMAIN'')
      then [mailgun_request (the (getenv w ''MAILGUN_API_KEY'')) (the (getenv w ''MAILGUN_DOMAIN''))
              (getenv_default w ''FROM_EMAIL'' (lit ''noreply@apluscharge.com''))
              to_email subject html]
      else []) \<and>
   is_resend (resend_request k f to_email subject html) \<and>
   \<not> is_mailgun (resend_request k f to_email subject html) \<and>
   is_mailgun (mailgun_request k d f to_email subject html) \<and>
   \<not> is_resend (mailgun_request k d f to_email subject html)"
  using resend_not_mailgun [of "mailgun_request k d f to_email subject html"]
    resend_not_mailgun [of "resend_request k f to_email subject html"]
  by (auto simp add: send_auto_email_snd send_auto_email_try_sent
      resend_request_url mailgun_request_url)

theorem send_auto_email_provider_selection_witness:
  "map url (sent (snd (send_auto_email (both_providers_world 200)
       (lit ''asha@gmail.com'') (lit ''Hello'') (lit ''<p>Hi</p>''))))
     = [lit ''https://api.resend.com/emails''] \<and>
   map url (sent (snd (send_auto_email mailgun_world
       (lit ''asha@gmail.com'') (lit ''Hello'') (lit ''<p>Hi</p>''))))
     = [lit ''https://api.mailgun.net/v3/mg.apluscharge.com/messages''] \<and>
   map url (sent (snd (send_auto_email mailgun_key_only_world
       (lit ''asha@gmail.com'') (lit ''Hello'') (lit ''<p>Hi</p>''))))
     = []"
  using send_auto_email_provider_selection
    [of "both_providers_world 200" "lit ''asha@gmail.com''" "lit ''Hello''" "lit ''<p>Hi</p>''"]
    send_auto_email_provider_selection
    [of mailgun_world "lit ''asha@gmail.com''" "lit ''Hello''" "lit ''<p>Hi</p>''"]
    send_auto_email_provider_selection
    [of mailgun_key_only_world "lit ''asha@gmail.com''" "lit ''Hello''" "lit ''<p>Hi</p>''"]
  by (simp add: both_providers_world_def mailgun_world_def mailgun_key_only_world_def
      example_world_def getenv_def getenv_default_def truthy_def resend_request_def
      mailgun_request_def lit_def)

text \<open>
  C10. With a Resend key configured and a failing Resend attempt (the post raises, or the
  status is 4xx or 5xx), \<open>send_auto_email\<close> returns normally having sent the Resend
  request and nothing else: no request goes to Mailgun, whatever the Mailgun
  configuration is.
\<close>

theorem send_auto_email_no_fallback:
  assumes "truthy (getenv w ''RESEND_API_KEY'')"
    and "attempt_fails w (resend_request (the (getenv w ''RESEND_API_KEY''))
           (getenv_default w ''FROM_EMAIL'' (lit ''noreply@apluscharge.com''))
           to_email subject html)"
  shows "fst (send_auto_email w to_email subject html) = Inr () \<and>
         sent (snd (send_auto_email w to_email subject html)) = sent w @
           [resend_request (the (getenv w ''RESEND_API_KEY''))
              (getenv_default w ''FROM_EMAIL'' (lit ''noreply@apluscharge.com''))
              to_email subject html] \<and>
         filter is_mailgun (sent (snd (send_auto_email w to_email subject html)))
           = filter is_mailgun (sent w)"
  using assms(1) resend_not_mailgun [OF resend_request_url]
  by (simp add: send_auto_email_fst send_auto_email_snd send_auto_email_try_sent)

theorem send_auto_email_no_fallback_witness:
  "truthy (getenv (both_providers_world 503) ''RESEND_API_KEY'') \<and>
   truthy (getenv (both_providers_world 503) ''MAILGUN_API_KEY'') \<and>
   truthy (getenv (both_providers_world 503) ''MAILGUN_DOMAIN'') \<and>
   attempt_fails (both_providers_world 503)
     (resend_request (lit ''re_1'') (lit ''noreply@apluscharge.com'')
        (lit ''asha@gmail.com'') (lit ''Hello'') (lit ''<p>Hi</p>'')) \<and>
   filter is_mailgun (sent (snd (send_auto_email (both_providers_world 503)
       (lit ''asha@gmail.com'') (lit ''Hello'') (lit ''<p>Hi</p>'')))) = [] \<and>
   map url (sent (snd (send_auto_email (both_providers_world 503)
       (lit ''asha@gmail.com'') (lit ''Hello'') (lit ''<p>Hi</p>''))))
     = [lit ''https://api.resend.com/emails'']"
  using send_auto_email_no_fallback
    [of "both_providers_world 503" "lit ''asha@gmail.com''" "lit ''Hello''" "lit ''<p>Hi</p>''"]
  by (simp add: both_providers_world_def example_world_def getenv_def getenv_default_def
      truthy_def attempt_fails_def resend_request_def is_mailgun_def lit_def)

section \<open>Properties of create_lead and of the route\<close>

lemma attempt_written: "written (snd (attempt w r)) = written w" "store (snd (attempt w r)) = store w"
  by (simp_all add: attempt_def requests_post_def Let_def split: http_outcome.splits)

lemma send_auto_email_try_written:
  "written (snd (send_auto_email_try w t s h)) = written w"
  "store (snd (send_auto_email_try w t s h)) = store w"
  by (simp_all add: send_auto_email_try_def Let_def attempt_written)

lemma send_auto_email_eq:
  "send_auto_email w t s h = (Inr (), snd (send_auto_email_try w t s h))"
  by (simp add: send_auto_email_def split: prod.splits sum.splits)

lemma create_lead_try_fst:
  "fst (create_lead_try w lead) =
     (case store w (written w) (lit ''lead'') lead of
        Inl e \<Rightarrow> Inl e
      | Inr i \<Rightarrow> Inr \<lparr>status = lit ''success'', ident = i\<rparr>)"
  by (simp add: create_lead_try_def create_document_def send_auto_email_eq Let_def
      split: sum.splits)

lemma create_lead_fst:
  "fst (create_lead w lead) =
     (case store w (written w) (lit ''lead'') lead of
        Inl e \<Rightarrow> Inl (HTTPException 500 (exn_text e))
      | Inr i \<Rightarrow> Inr \<lparr>status = lit ''success'', ident = i\<rparr>)"
  using create_lead_try_fst [of w lead]
  by (cases "create_lead_try w lead") (auto simp add: create_lead_def split: sum.splits)

lemma post_api_leads_fst:
  "validate_LeadIn w j = Some lead \<Longrightarrow>
   fst (post_api_leads w j) =
     (case store w (written w) (lit ''lead'') lead of
        Inl e \<Rightarrow> \<lparr>code = 500, content = Detail (exn_text e)\<rparr>
      | Inr i \<Rightarrow> \<lparr>code = 200, content = Lead_created \<lparr>status = lit ''success'', ident = i\<rparr>\<rparr>)"
  using create_lead_fst [of w lead]
  by (cases "create_lead w lead")
    (auto simp add: post_api_leads_def split: sum.splits http_exception.splits)

text \<open>
  C5. For a validated lead the handler returns \<open>{status: "success", id: i}\<close> with \<open>i\<close> the
  identifier the store returned exactly when \<open>create_document\<close> returns, and raises
  \<open>HTTPException(500)\<close> with the text of the store's exception as detail exactly when it
  raises; the route answers 200 or 500 accordingly. Replacing the environment (the
  provider credentials), the network's behaviour and the trace of requests changes nothing
  of the result.
\<close>

theorem create_lead_result:
  "fst (create_lead w lead) =
     (case store w (written w) (lit ''lead'') lead of
        Inl e \<Rightarrow> Inl (HTTPException 500 (exn_text e))
      | Inr i \<Rightarrow> Inr \<lparr>status = lit ''success'', ident = i\<rparr>) \<and>
   fst (create_lead (w\<lparr>environ := env', net := net', sent := sent'\<rparr>) lead)
     = fst (create_lead w lead) \<and>
   (validate_LeadIn w j = Some lead \<longrightarrow>
    fst (post_api_leads w j) =
      (case store w (written w) (lit ''lead'') lead of
         Inl e \<Rightarrow> \<lparr>code = 500, content = Detail (exn_text e)\<rparr>
       | Inr i \<Rightarrow> \<lparr>code = 200, content = Lead_created \<lparr>status = lit ''success'', ident = i\<rparr>\<rparr>))"
  by (simp add: create_lead_fst post_api_leads_fst)

lemma validate_example_payload: "validate_LeadIn example_world example_payload = Some example_lead"
  by (simp add: validate_LeadIn_def example_payload_def example_world_def example_lead_def
      str_field_def opt_str_field_def obj_get_def)

lemma validate_example_payload_failing:
  "validate_LeadIn failing_store_world example_payload = Some example_lead"
  by (simp add: validate_LeadIn_def example_payload_def example_world_def example_lead_def
      failing_store_world_def str_field_def opt_str_field_def obj_get_def)

theorem create_lead_result_witness:
  "validate_LeadIn example_world example_payload = Some example_lead \<and>
   fst (post_api_leads example_world example_payload)
     = \<lparr>code = 200, content = Lead_created \<lparr>status = lit ''success'', ident = lit ''65f0c2a1''\<rparr>\<rparr> \<and>
   fst (create_lead (both_providers_world 503) example_lead)
     = Inr \<lparr>status = lit ''success'', ident = lit ''65f0c2a1''\<rparr> \<and>
   validate_LeadIn failing_store_world example_payload = Some example_lead \<and>
   fst (post_api_leads failing_store_world example_payload)
     = \<lparr>code = 500, content = Detail (lit ''connection refused'')\<rparr>"
  using create_lead_result
    [where w = example_world and lead = example_lead and j = example_payload
       and env' = "[''RESEND_API_KEY'' \<mapsto> lit ''re_1'', ''MAILGUN_API_KEY'' \<mapsto> lit ''key-1'',
                    ''MAILGUN_DOMAIN'' \<mapsto> lit ''mg.apluscharge.com'']"
       and net' = "\<lambda>_ _. Responded 503" and sent' = "[]"]
    create_lead_result
    [where w = failing_store_world and lead = example_lead and j = example_payload
       and env' = Map.empty and net' = "\<lambda>_ _. Responded 200" and sent' = "[]"]
    validate_example_payload validate_example_payload_failing
  by (simp add: both_providers_world_def example_world_def failing_store_world_def)

lemma create_lead_try_written:
  "written (snd (create_lead_try w lead)) = written w @ [(lit ''lead'', lead)]"
  by (simp add: create_lead_try_def create_document_def send_auto_email_eq Let_def
      send_auto_email_try_written split: sum.splits)

lemma create_lead_written:
  "written (snd (create_lead w lead)) = written w @ [(lit ''lead'', lead)]"
  using create_lead_try_written [of w lead]
  by (cases "create_lead_try w lead") (auto simp add: create_lead_def split: sum.splits)

lemma post_api_leads_written:
  "validate_LeadIn w j = Some lead \<Longrightarrow>
   written (snd (post_api_leads w j)) = written w @ [(lit ''lead'', lead)]"
  using create_lead_written [of w lead]
  by (cases "create_lead w lead")
    (auto simp add: post_api_leads_def split: sum.splits http_exception.splits)

lemma validate_rejects:
  "name_missing j \<or> email_invalid w j \<Longrightarrow> validate_LeadIn w j = None"
  by (auto simp add: name_missing_def email_invalid_def validate_LeadIn_def str_field_def
      split: json.splits option.splits Option.bind_splits)

text \<open>
  C4, as amended. A payload whose name is missing or is not a string, or whose email is
  missing, is not a string or is rejected by the email validator, is answered with 422 and
  leaves the world as it was: the handler does not run, nothing is written and nothing is
  sent. An empty name is a string and is not rejected.
\<close>

theorem post_api_leads_rejects:
  assumes "name_missing j \<or> email_invalid w j"
  shows "post_api_leads w j = (\<lparr>code = 422, content = Validation_errors\<rparr>, w)"
  using validate_rejects [OF assms] by (simp add: post_api_leads_def)

theorem post_api_leads_rejects_witness:
  "name_missing no_name_payload \<and> email_invalid example_world bad_email_payload \<and>
   post_api_leads example_world no_name_payload
     = (\<lparr>code = 422, content = Validation_errors\<rparr>, example_world) \<and>
   post_api_leads example_world bad_email_payload
     = (\<lparr>code = 422, content = Validation_errors\<rparr>, example_world)"
proof -
  have a: "name_missing no_name_payload"
    by (simp add: name_missing_def no_name_payload_def obj_get_def)
  have b: "email_invalid example_world bad_email_payload"
    by (simp add: email_invalid_def bad_email_payload_def obj_get_def example_world_def lit_def)
  show ?thesis
    using a b post_api_leads_rejects [of no_name_payload example_world]
      post_api_leads_rejects [of bad_email_payload example_world]
    by simp
qed

text \<open>
  C4 as stated fails on the empty name: \<open>name: str\<close> carries no length constraint, so the
  payload \<open>{"name": "", "email": "asha@gmail.com"}\<close> is answered with 200 and written to
  the store.
\<close>

theorem empty_name_accepted:
  "name_missing_or_empty empty_name_payload \<and>
   fst (post_api_leads example_world empty_name_payload)
     = \<lparr>code = 200, content = Lead_created \<lparr>status = lit ''success'', ident = lit ''65f0c2a1''\<rparr>\<rparr> \<and>
   written (snd (post_api_leads example_world empty_name_payload))
     = [(lit ''lead'', example_lead\<lparr>name := []\<rparr>)]"
proof -
  have v: "validate_LeadIn example_world empty_name_payload = Some (example_lead\<lparr>name := []\<rparr>)"
    by (simp add: validate_LeadIn_def empty_name_payload_def example_world_def example_lead_def
        str_field_def opt_str_field_def obj_get_def)
  have n: "name_missing_or_empty empty_name_payload"
    by (simp add: name_missing_or_empty_def empty_name_payload_def obj_get_def)
  show ?thesis
    using n post_api_leads_fst [OF v] post_api_leads_written [OF v]
    by (simp add: example_world_def)
qed

lemma sublist_skip: "sublist xs ys \<Longrightarrow> sublist xs (zs @ ys)"
  by (metis sublist_append_leftI sublist_order.order_trans)

lemma html_body_embeds_name: "sublist (name lead) (html_body lead)"
  unfolding html_body_def by (rule sublist_append_rightI | rule sublist_skip)+

lemma html_body_embeds_email: "sublist (email lead) (html_body lead)"
  unfolding html_body_def by (rule sublist_append_rightI | rule sublist_skip)+

lemma html_body_embeds_phone: "sublist (phone_item lead) (html_body lead)"
  unfolding html_body_def by (rule sublist_append_rightI | rule sublist_skip)+

lemma html_body_embeds_company: "sublist (company_item lead) (html_body lead)"
  unfolding html_body_def by (rule sublist_append_rightI | rule sublist_skip)+

lemma html_body_embeds_citystate: "sublist (citystate_item lead) (html_body lead)"
  unfolding html_body_def by (rule sublist_append_rightI | rule sublist_skip)+

lemma create_lead_try_sent:
  "store w (written w) (lit ''lead'') lead = Inr i \<Longrightarrow>
   prefix (sent (snd (send_auto_email (w\<lparr>written := written w @ [(lit ''lead'', lead)]\<rparr>)
              (email lead) (lit ''Thanks for contacting A Plus Charge'') (html_body lead))))
          (sent (snd (create_lead_try w lead)))"
  by (simp add: create_lead_try_def create_document_def send_auto_email_eq Let_def
      send_auto_email_try_sent)

lemma create_lead_snd: "snd (create_lead w lead) = snd (create_lead_try w lead)"
  by (cases "create_lead_try w lead") (auto simp add: create_lead_def split: sum.splits)

lemma sublist_skip_plain: "c \<notin> set xs \<Longrightarrow> sublist (c # p) (xs @ ys) = sublist (c # p) ys"
  by (induction xs) (auto simp add: sublist_Cons_right)

lemma sublist_plain_end: "c \<notin> set xs \<Longrightarrow> \<not> sublist (c # p) xs"
  using set_mono_sublist [of "c # p" xs] by auto

lemma indent_plain: "60 \<notin> set (indent n)"
  by (simp add: indent_def)

lemma html_body_slots:
  "html_body lead =
     nl @ indent 8 @ lit ''<div style='' @ [39] @ lit ''font-family:Inter,Arial,sans-serif''
        @ [39] @ lit ''>'' @
     nl @ indent 8 @ lit ''<h2>Hi '' @ name lead @ lit '',</h2>'' @
     nl @ indent 8 @ lit ''<p>Thanks for reaching out to A Plus Charge. Our team will get back to you shortly.</p>'' @
     nl @ indent 8 @ lit ''<p><strong>Summary:</strong></p>'' @
     nl @ indent 8 @ lit ''<ul>'' @
     nl @ indent 12 @ lit ''<li>Email: '' @ email lead @ lit ''</li>'' @
     nl @ indent 12 @
       (if truthy (phone lead) then lit ''<li>Phone: '' @ the (phone lead) @ lit ''</li>'' else []) @
     nl @ indent 12 @
       (if truthy (company lead) then lit ''<li>Company: '' @ the (company lead) @ lit ''</li>''
        else []) @
     nl @ indent 12 @
       lit ''<li>City/State: '' @ or_empty (city lead) @ lit '' '' @ or_empty (state lead)
         @ lit ''</li>'' @
     nl @ indent 8 @ lit ''</ul>'' @
     nl @ indent 8 @ lit ''<p>Regards,<br/>A Plus Charge Team</p>'' @
     nl @ indent 8 @ lit ''</div>'' @
     nl @ indent 8"
  by (simp add: html_body_def phone_item_def company_item_def citystate_item_def)

lemma no_phone_line:
  assumes "plain_fields lead" "\<not> truthy (phone lead)"
  shows "\<not> sublist (lit ''<li>Phone: '') (html_body lead)"
proof -
  have p: "60 \<notin> set (name lead)" "60 \<notin> set (email lead)" "60 \<notin> set (or_empty (city lead))"
    "60 \<notin> set (or_empty (state lead))" "60 \<notin> set (or_empty (company lead))"
    using assms(1) by (simp_all add: plain_fields_def plain_text_def)
  have c: "truthy (company lead) \<Longrightarrow> 60 \<notin> set (the (company lead))"
    using p(5) by (cases "company lead") (simp_all add: or_empty_def truthy_def)
  show ?thesis
    unfolding html_body_slots
    using assms(2) p c
    by (simp add: lit_def nl_def sublist_Cons_right sublist_skip_plain sublist_plain_end
        indent_plain)
qed

lemma no_company_line:
  assumes "plain_fields lead" "\<not> truthy (company lead)"
  shows "\<not> sublist (lit ''<li>Company: '') (html_body lead)"
proof -
  have p: "60 \<notin> set (name lead)" "60 \<notin> set (email lead)" "60 \<notin> set (or_empty (city lead))"
    "60 \<notin> set (or_empty (state lead))" "60 \<notin> set (or_empty (phone lead))"
    using assms(1) by (simp_all add: plain_fields_def plain_text_def)
  have c: "truthy (phone lead) \<Longrightarrow> 60 \<notin> set (the (phone lead))"
    using p(5) by (cases "phone lead") (simp_all add: or_empty_def truthy_def)
  show ?thesis
    unfolding html_body_slots
    using assms(2) p c
    by (simp add: lit_def nl_def sublist_Cons_right sublist_skip_plain sublist_plain_end
        indent_plain)
qed

lemma sublist_of_prefix: "sublist (xs @ ys) zs \<Longrightarrow> sublist xs zs"
  by (metis sublist_append_rightI sublist_order.order_trans)

lemma phone_line_iff:
  "plain_fields lead \<Longrightarrow>
   sublist (lit ''<li>Phone: '') (html_body lead) \<longleftrightarrow> truthy (phone lead)"
proof
  assume "plain_fields lead" "sublist (lit ''<li>Phone: '') (html_body lead)"
  then show "truthy (phone lead)" using no_phone_line by blast
next
  assume t: "truthy (phone lead)"
  have "sublist (phone_item lead) (html_body lead)" by (rule html_body_embeds_phone)
  then have "sublist (lit ''<li>Phone: '' @ the (phone lead) @ lit ''</li>'') (html_body lead)"
    using t by (simp add: phone_item_def)
  then show "sublist (lit ''<li>Phone: '') (html_body lead)" by (rule sublist_of_prefix)
qed

lemma company_line_iff:
  "plain_fields lead \<Longrightarrow>
   sublist (lit ''<li>Company: '') (html_body lead) \<longleftrightarrow> truthy (company lead)"
proof
  assume "plain_fields lead" "sublist (lit ''<li>Company: '') (html_body lead)"
  then show "truthy (company lead)" using no_company_line by blast
next
  assume t: "truthy (company lead)"
  have "sublist (company_item lead) (html_body lead)" by (rule html_body_embeds_company)
  then have "sublist (lit ''<li>Company: '' @ the (company lead) @ lit ''</li>'') (html_body lead)"
    using t by (simp add: company_item_def)
  then show "sublist (lit ''<li>Company: '') (html_body lead)" by (rule sublist_of_prefix)
qed

lemma plain_example_leads: "plain_fields example_lead" "plain_fields example_lead_full"
  by (simp_all add: plain_fields_def plain_text_def example_lead_full_def example_lead_def
      or_empty_def lit_def)

text \<open>
  C9, as amended. The body is the fixed template with the name and the email in their
  places, a phone slot that holds the phone line when \<open>phone\<close> is truthy and nothing
  otherwise, a company slot likewise, and the City/State line for every lead, an unset
  city or state rendered as the empty string. When the write succeeds, the requests sent
  by the handler start with those of dispatching this body to the lead's address. For a
  plain lead the body contains \<open><li>Phone:\<close> exactly when \<open>phone\<close> is truthy and
  \<open><li>Company:\<close> exactly when \<open>company\<close> is truthy.
\<close>

theorem confirmation_body_embeds:
  "html_body lead =
     nl @ indent 8 @ lit ''<div style='' @ [39] @ lit ''font-family:Inter,Arial,sans-serif''
        @ [39] @ lit ''>'' @
     nl @ indent 8 @ lit ''<h2>Hi '' @ name lead @ lit '',</h2>'' @
     nl @ indent 8 @ lit ''<p>Thanks for reaching out to A Plus Charge. Our team will get back to you shortly.</p>'' @
     nl @ indent 8 @ lit ''<p><strong>Summary:</strong></p>'' @
     nl @ indent 8 @ lit ''<ul>'' @
     nl @ indent 12 @ lit ''<li>Email: '' @ email lead @ lit ''</li>'' @
     nl @ indent 12 @
       (if truthy (phone lead) then lit ''<li>Phone: '' @ the (phone lead) @ lit ''</li>'' else []) @
     nl @ indent 12 @
       (if truthy (company lead) then lit ''<li>Company: '' @ the (company lead) @ lit ''</li>''
        else []) @
     nl @ indent 12 @
       lit ''<li>City/State: '' @ or_empty (city lead) @ lit '' '' @ or_empty (state lead)
         @ lit ''</li>'' @
     nl @ indent 8 @ lit ''</ul>'' @
     nl @ indent 8 @ lit ''<p>Regards,<br/>A Plus Charge Team</p>'' @
     nl @ indent 8 @ lit ''</div>'' @
     nl @ indent 8 \<and>
   (store w (written w) (lit ''lead'') lead = Inr i \<longrightarrow>
    prefix (sent (snd (send_auto_email (w\<lparr>written := written w @ [(lit ''lead'', lead)]\<rparr>)
               (email lead) (lit ''Thanks for contacting A Plus Charge'') (html_body lead))))
           (sent (snd (create_lead w lead)))) \<and>
   sublist (name lead) (html_body lead) \<and>
   sublist (email lead) (html_body lead) \<and>
   (truthy (phone lead) \<longrightarrow>
    sublist (lit ''<li>Phone: '' @ the (phone lead) @ lit ''</li>'') (html_body lead)) \<and>
   (truthy (company lead) \<longrightarrow>
    sublist (lit ''<li>Company: '' @ the (company lead) @ lit ''</li>'') (html_body lead)) \<and>
   (plain_fields lead \<longrightarrow>
    (sublist (lit ''<li>Phone: '') (html_body lead) \<longleftrightarrow> truthy (phone lead)) \<and>
    (sublist (lit ''<li>Company: '') (html_body lead) \<longleftrightarrow> truthy (company lead))) \<and>
   sublist (lit ''<li>City/State: '' @ or_empty (city lead) @ lit '' '' @ or_empty (state lead)
              @ lit ''</li>'') (html_body lead)"
proof -
  have d: "store w (written w) (lit ''lead'') lead = Inr i \<longrightarrow>
    prefix (sent (snd (send_auto_email (w\<lparr>written := written w @ [(lit ''lead'', lead)]\<rparr>)
               (email lead) (lit ''Thanks for contacting A Plus Charge'') (html_body lead))))
           (sent (snd (create_lead w lead)))"
    by (simp add: create_lead_snd create_lead_try_sent)
  have p: "truthy (phone lead) \<longrightarrow>
    sublist (lit ''<li>Phone: '' @ the (phone lead) @ lit ''</li>'') (html_body lead)"
    using html_body_embeds_phone [of lead] by (auto simp add: phone_item_def)
  have c: "truthy (company lead) \<longrightarrow>
    sublist (lit ''<li>Company: '' @ the (company lead) @ lit ''</li>'') (html_body lead)"
    using html_body_embeds_company [of lead] by (auto simp add: company_item_def)
  have cs: "sublist (lit ''<li>City/State: '' @ or_empty (city lead) @ lit '' ''
              @ or_empty (state lead) @ lit ''</li>'') (html_body lead)"
    using html_body_embeds_citystate [of lead] by (simp add: citystate_item_def)
  from html_body_slots [of lead] d p c cs html_body_embeds_name [of lead]
    html_body_embeds_email [of lead] phone_line_iff [of lead] company_line_iff [of lead]
  show ?thesis by blast
qed

theorem confirmation_body_embeds_witness:
  "store (both_providers_world 200) (written (both_providers_world 200)) (lit ''lead'')
     example_lead_full = Inr (lit ''65f0c2a1'') \<and>
   prefix [resend_request (lit ''re_1'') (lit ''noreply@apluscharge.com'')
             (lit ''asha@gmail.com'') (lit ''Thanks for contacting A Plus Charge'')
             (html_body example_lead_full)]
     (sent (snd (create_lead (both_providers_world 200) example_lead_full))) \<and>
   plain_fields example_lead_full \<and>
   sublist (lit ''<li>Phone: +91 98200 00000</li>'') (html_body example_lead_full) \<and>
   sublist (lit ''<li>Company: Volt Fleet</li>'') (html_body example_lead_full) \<and>
   sublist (lit ''<li>City/State: Pune </li>'') (html_body example_lead_full) \<and>
   plain_fields example_lead \<and>
   \<not> sublist (lit ''<li>Phone: '') (html_body example_lead) \<and>
   \<not> sublist (lit ''<li>Company: '') (html_body example_lead)"
proof -
  have e: "email example_lead_full = lit ''asha@gmail.com''"
    "phone example_lead_full = Some (lit ''+91 98200 00000'')"
    "company example_lead_full = Some (lit ''Volt Fleet'')"
    "city example_lead_full = Some (lit ''Pune'')"
    "state example_lead_full = None"
    "phone example_lead = None" "company example_lead = None"
    by (simp_all add: example_lead_full_def example_lead_def)
  show ?thesis
    using confirmation_body_embeds
      [of example_lead_full "both_providers_world 200" "lit ''65f0c2a1''", THEN conjunct2]
      confirmation_body_embeds
      [of example_lead "both_providers_world 200" "lit ''65f0c2a1''", THEN conjunct2]
      plain_example_leads
    by (auto simp add: e both_providers_world_def example_world_def send_auto_email_snd
        send_auto_email_try_sent getenv_def getenv_default_def truthy_def or_empty_def lit_def)
qed

text \<open>
  C9 as stated fails on the City/State line: a lead with neither city nor state still gets
  the line \<open><li>City/State:  </li>\<close> in its body.
\<close>

theorem citystate_always_embedded:
  "city example_lead = None \<and> state example_lead = None \<and>
   sublist (lit ''<li>City/State:  </li>'') (html_body example_lead)"
  using html_body_embeds_citystate [of example_lead]
  by (simp add: example_lead_def citystate_item_def or_empty_def lit_def)

section \<open>Properties of test_database\<close>

lemma initial_response_dom: "dom initial_response = six_fields"
  by (auto simp add: initial_response_def six_fields_def)

lemma dom_upd_six: "dom r = six_fields \<Longrightarrow> k \<in> six_fields \<Longrightarrow> dom (r(k \<mapsto> v)) = six_fields"
  by auto

lemma six_fields_mem:
  "''backend'' \<in> six_fields" "''database'' \<in> six_fields" "''database_url'' \<in> six_fields"
  "''database_name'' \<in> six_fields" "''connection_status'' \<in> six_fields"
  "''collections'' \<in> six_fields"
  by (simp_all add: six_fields_def)

lemma test_database_try_dom: "dom (snd (test_database_try w)) = six_fields"
  by (simp add: test_database_try_def Let_def dom_upd_six six_fields_mem initial_response_dom
      del: dom_fun_upd fun_upd_apply split: db_import.splits sum.splits)

lemma test_database_eq: "test_database w = Inr (projr (test_database w))"
  by (simp add: test_database_def split: prod.splits sum.splits)

lemma test_database_dom: "dom (projr (test_database w)) = six_fields"
  using test_database_try_dom [of w]
  by (cases "test_database_try w")
    (simp add: test_database_def dom_upd_six six_fields_mem del: dom_fun_upd
      split: sum.splits)

lemma test_database_Import_raises:
  "db_module w = Import_raises e \<Longrightarrow>
   projr (test_database w) = initial_response(''database'' \<mapsto>
      VStr (cross_mark @ lit '' Error: '' @ take 80 (exn_text e)))"
  by (simp add: test_database_def test_database_try_def)

lemma test_database_Db_none:
  "db_module w = Db_none \<Longrightarrow>
   projr (test_database w) = initial_response(''database'' \<mapsto>
      VStr (warning_sign @ lit '' Available but not initialized''))"
  by (simp add: test_database_def test_database_try_def)

lemma test_database_listed:
  "db_module w = Db_handle h \<Longrightarrow> list_collection_names h = Inr cs \<Longrightarrow>
   projr (test_database w) = initial_response
     (''database'' \<mapsto> VStr (check_mark @ lit '' Available''),
      ''database_url'' \<mapsto>
        VStr (if truthy (getenv w ''DATABASE_URL'') then check_mark @ lit '' Set''
              else cross_mark @ lit '' Not Set''),
      ''database_name'' \<mapsto>
        VStr (if truthy (name_attr h) then the (name_attr h) else check_mark @ lit '' Connected''),
      ''connection_status'' \<mapsto> VStr (lit ''Connected''),
      ''collections'' \<mapsto> VList (take 10 cs),
      ''database'' \<mapsto> VStr (check_mark @ lit '' Connected & Working''))"
  by (simp add: test_database_def test_database_try_def Let_def del: fun_upd_apply)

lemma test_database_list_raises:
  "db_module w = Db_handle h \<Longrightarrow> list_collection_names h = Inl e \<Longrightarrow>
   projr (test_database w) = initial_response
     (''database'' \<mapsto> VStr (check_mark @ lit '' Available''),
      ''database_url'' \<mapsto>
        VStr (if truthy (getenv w ''DATABASE_URL'') then check_mark @ lit '' Set''
              else cross_mark @ lit '' Not Set''),
      ''database_name'' \<mapsto>
        VStr (if truthy (name_attr h) then the (name_attr h) else check_mark @ lit '' Connected''),
      ''connection_status'' \<mapsto> VStr (lit ''Connected''),
      ''database'' \<mapsto> VStr (warning_sign @ lit '' Connected but Error: ''
                                @ take 80 (exn_text e)))"
  by (simp add: test_database_def test_database_try_def Let_def del: fun_upd_apply)

lemma initial_response_fields:
  "initial_response ''backend'' = Some (VStr (check_mark @ lit '' Running''))"
  "initial_response ''database'' = Some (VStr (cross_mark @ lit '' Not Available''))"
  "initial_response ''database_url'' = Some VNone"
  "initial_response ''database_name'' = Some VNone"
  "initial_response ''connection_status'' = Some (VStr (lit ''Not Connected''))"
  "initial_response ''collections'' = Some (VList [])"
  by (simp_all add: initial_response_def)

lemma test_database_fields:
  fixes w defines "r \<equiv> projr (test_database w)"
  shows "is_str (r ''backend'') \<and> is_str (r ''database'') \<and> is_str (r ''connection_status'') \<and>
     (\<exists>cs. r ''collections'' = Some (VList cs) \<and> length cs \<le> 10) \<and>
     (case db_module w of
        Db_handle h \<Rightarrow>
          is_str (r ''database_url'') \<and> is_str (r ''database_name'') \<and>
          (case list_collection_names h of
             Inl e \<Rightarrow> r ''database'' = Some (VStr (warning_sign @ lit '' Connected but Error: ''
                                                  @ take 80 (exn_text e)))
           | Inr cs \<Rightarrow> r ''collections'' = Some (VList (take 10 cs)))
      | Db_none \<Rightarrow> r ''database_url'' = Some VNone \<and> r ''database_name'' = Some VNone
      | Import_raises e \<Rightarrow>
          r ''database_url'' = Some VNone \<and> r ''database_name'' = Some VNone \<and>
          r ''database'' = Some (VStr (cross_mark @ lit '' Error: '' @ take 80 (exn_text e))))"
proof (cases "db_module w")
  case (Import_raises e)
  show ?thesis
    unfolding r_def test_database_Import_raises [OF Import_raises] Import_raises
    by (simp add: initial_response_fields is_str_def)
next
  case Db_none
  show ?thesis
    unfolding r_def test_database_Db_none [OF Db_none] Db_none
    by (simp add: initial_response_fields is_str_def)
next
  case (Db_handle h)
  show ?thesis
  proof (cases "list_collection_names h")
    case (Inl e)
    show ?thesis
      unfolding r_def test_database_list_raises [OF Db_handle Inl] Db_handle
      by (simp add: initial_response_fields is_str_def Inl)
  next
    case (Inr cs)
    show ?thesis
      unfolding r_def test_database_listed [OF Db_handle Inr] Db_handle
      by (simp add: initial_response_fields is_str_def Inr)
  qed
qed

text \<open>
  C8, as amended. \<open>test_database\<close> never raises. Its response has exactly the six keys;
  \<open>backend\<close>, \<open>database\<close> and \<open>connection_status\<close> are strings and \<open>collections\<close> is a
  list of at most 10 names (the first 10 the store lists). \<open>database_url\<close> and
  \<open>database_name\<close> are strings when the import gives a handle and are \<open>None\<close> when it
  gives \<open>None\<close> or raises. A failure is reported in the \<open>database\<close> field, as a fixed
  prefix followed by the first 80 characters of the exception's text.
\<close>

theorem test_database_total:
  "\<exists>r. test_database w = Inr r \<and> dom r = six_fields \<and>
     is_str (r ''backend'') \<and> is_str (r ''database'') \<and> is_str (r ''connection_status'') \<and>
     (\<exists>cs. r ''collections'' = Some (VList cs) \<and> length cs \<le> 10) \<and>
     (case db_module w of
        Db_handle h \<Rightarrow>
          is_str (r ''database_url'') \<and> is_str (r ''database_name'') \<and>
          (case list_collection_names h of
             Inl e \<Rightarrow> r ''database'' = Some (VStr (warning_sign @ lit '' Connected but Error: ''
                                                  @ take 80 (exn_text e)))
           | Inr cs \<Rightarrow> r ''collections'' = Some (VList (take 10 cs)))
      | Db_none \<Rightarrow> r ''database_url'' = Some VNone \<and> r ''database_name'' = Some VNone
      | Import_raises e \<Rightarrow>
          r ''database_url'' = Some VNone \<and> r ''database_name'' = Some VNone \<and>
          r ''database'' = Some (VStr (cross_mark @ lit '' Error: '' @ take 80 (exn_text e))))"
  using test_database_eq [of w] test_database_dom [of w] test_database_fields [of w]
  by blast

theorem test_database_total_witness:
  "\<not> isl (test_database broken_db_world) \<and>
   projr (test_database broken_db_world) ''database''
     = Some (VStr (warning_sign @ lit '' Connected but Error: '' @ replicate 80 120)) \<and>
   projr (test_database broken_db_world) ''database_name'' = Some (VStr (lit ''apluscharge''))"
proof -
  have m: "db_module broken_db_world = Db_handle
          \<lparr>name_attr = Some (lit ''apluscharge''),
           list_collection_names = Inl (Exn (replicate 100 120))\<rparr>"
    by (simp add: broken_db_world_def example_world_def)
  have n: "projr (test_database broken_db_world) ''database_name'' = Some (VStr (lit ''apluscharge''))"
    unfolding test_database_list_raises [OF m, of "Exn (replicate 100 120)", simplified]
    by (simp add: truthy_def lit_def)
  show ?thesis
    using test_database_total [of broken_db_world] n
    by (auto simp add: m)
qed

text \<open>
  C8 as stated fails on the type of the fields: with \<open>db\<close> being \<open>None\<close> the response
  keeps \<open>database_url = None\<close>, neither a string nor a list of strings.
\<close>

theorem database_url_none:
  "db_module example_world = Db_none \<and>
   \<not> isl (test_database example_world) \<and>
   projr (test_database example_world) ''database_url'' = Some VNone \<and>
   \<not> is_str (projr (test_database example_world) ''database_url'') \<and>
   \<not> is_str_list (projr (test_database example_world) ''database_url'')"
proof -
  have m: "db_module example_world = Db_none"
    by (simp add: example_world_def)
  have i: "\<not> isl (test_database example_world)"
    using test_database_eq [of example_world] by (metis sum.disc(2))
  show ?thesis
    using m i by (simp add: test_database_Db_none [OF m] initial_response_fields
      is_str_def is_str_list_def)
qed

section \<open>Properties of float arithmetic and of calculate_roi\<close>

lemma log2floor_bounds: "0 < n \<Longrightarrow> 2 ^ log2floor n \<le> n \<and> n < 2 ^ Suc (log2floor n)"
proof (induction n rule: log2floor.induct)
  case (1 n)
  show ?case
  proof (cases "n < 2")
    case True
    with 1(2) have "n = 1" by simp
    then show ?thesis by (simp add: log2floor.simps)
  next
    case False
    then have pos: "0 < n div 2" by simp
    have IH: "2 ^ log2floor (n div 2) \<le> n div 2 \<and> n div 2 < 2 ^ Suc (log2floor (n div 2))"
      using 1(1) [OF False pos] .
    have eq: "log2floor n = Suc (log2floor (n div 2))"
      using False by (subst log2floor.simps) simp
    have "2 * 2 ^ log2floor (n div 2) \<le> n" using IH by linarith
    moreover have "n < 2 * 2 ^ Suc (log2floor (n div 2))" using IH by linarith
    ultimately show ?thesis by (simp add: eq)
  qed
qed

lemma ilog2_ge1:
  assumes "1 \<le> a"
  shows "2 powi (ilog2 a) \<le> a \<and> a < 2 powi (ilog2 a + 1)"
proof -
  define n where "n = nat \<lfloor>a\<rfloor>"
  have fl1: "1 \<le> \<lfloor>a\<rfloor>" using assms by linarith
  then have npos: "0 < n" by (simp add: n_def)
  have nle: "rat_of_nat n \<le> a"
  proof -
    have "rat_of_nat n = of_int \<lfloor>a\<rfloor>" using fl1 by (simp add: n_def)
    then show ?thesis by linarith
  qed
  have alt: "a < rat_of_nat n + 1"
  proof -
    have "rat_of_nat n = of_int \<lfloor>a\<rfloor>" using fl1 by (simp add: n_def)
    then show ?thesis by linarith
  qed
  from log2floor_bounds [OF npos]
  have b: "2 ^ log2floor n \<le> n" "n < 2 ^ Suc (log2floor n)" by simp_all
  have "(2::rat) ^ log2floor n = rat_of_nat (2 ^ log2floor n)" by simp
  also have "\<dots> \<le> rat_of_nat n" using b(1) of_nat_le_iff by blast
  finally have lo: "(2::rat) ^ log2floor n \<le> a" using nle by linarith
  have "n + 1 \<le> 2 ^ Suc (log2floor n)" using b(2) by simp
  then have "rat_of_nat (n + 1) \<le> rat_of_nat (2 ^ Suc (log2floor n))"
    using of_nat_le_iff by blast
  moreover have "rat_of_nat (2 ^ Suc (log2floor n)) = (2::rat) ^ Suc (log2floor n)" by simp
  moreover have "rat_of_nat (n + 1) = rat_of_nat n + 1" by simp
  ultimately have hi: "a < (2::rat) ^ Suc (log2floor n)" using alt by linarith
  have e: "ilog2 a = int (log2floor n)" using assms by (simp add: ilog2_def n_def)
  have "int (log2floor n) + 1 = int (Suc (log2floor n))" by simp
  then have "2 powi (int (log2floor n) + 1) = (2::rat) ^ Suc (log2floor n)"
    by (simp only: power_int_of_nat)
  moreover have "2 powi (int (log2floor n)) = (2::rat) ^ log2floor n"
    by (simp only: power_int_of_nat)
  ultimately show ?thesis using lo hi by (simp only: e)
qed

lemma ilog2_lt1:
  assumes "0 < a" "a < 1"
  shows "2 powi (ilog2 a) \<le> a \<and> a < 2 powi (ilog2 a + 1)"
proof -
  define x where "x = 1 / a"
  define m where "m = \<lceil>x\<rceil>"
  define n where "n = nat (m - 1)"
  have x1: "1 < x" using assms by (simp add: x_def)
  have m2: "2 \<le> m" using x1 unfolding m_def by linarith
  then have npos: "0 < n" by (simp add: n_def)
  have nrat: "rat_of_nat n = of_int m - 1" using m2 by (simp add: n_def)
  have xm: "x \<le> of_int m" "of_int m - 1 < x" unfolding m_def by linarith+
  from log2floor_bounds [OF npos]
  have b: "2 ^ log2floor n \<le> n" "n < 2 ^ Suc (log2floor n)" by simp_all
  have "(2::rat) ^ log2floor n = rat_of_nat (2 ^ log2floor n)" by simp
  also have "\<dots> \<le> rat_of_nat n" using b(1) of_nat_le_iff by blast
  finally have lo: "(2::rat) ^ log2floor n < x" using nrat xm by linarith
  have "n + 1 \<le> 2 ^ Suc (log2floor n)" using b(2) by simp
  then have "rat_of_nat (n + 1) \<le> rat_of_nat (2 ^ Suc (log2floor n))"
    using of_nat_le_iff by blast
  moreover have "rat_of_nat (2 ^ Suc (log2floor n)) = (2::rat) ^ Suc (log2floor n)" by simp
  moreover have "rat_of_nat (n + 1) = rat_of_nat n + 1" by simp
  ultimately have hi: "x \<le> (2::rat) ^ Suc (log2floor n)" using nrat xm by linarith
  have e: "ilog2 a = - int (Suc (log2floor n))"
    using assms by (simp add: ilog2_def n_def m_def x_def)
  have ax: "a = 1 / x" using assms by (simp add: x_def)
  have p1: "2 powi (- int (Suc (log2floor n))) = 1 / (2::rat) ^ Suc (log2floor n)"
    by (simp only: power_int_minus power_int_of_nat inverse_eq_divide)
  have "- int (Suc (log2floor n)) + 1 = - int (log2floor n)" by simp
  then have p2: "2 powi (- int (Suc (log2floor n)) + 1) = 1 / (2::rat) ^ log2floor n"
    by (simp only: power_int_minus power_int_of_nat inverse_eq_divide)
  have q1: "2 powi (ilog2 a) = 1 / (2::rat) ^ Suc (log2floor n)"
    using p1 by (simp only: e)
  have q2: "2 powi (ilog2 a + 1) = 1 / (2::rat) ^ log2floor n"
    using p2 by (simp only: e)
  have "1 / (2::rat) ^ Suc (log2floor n) \<le> 1 / x"
    using hi x1 by (intro divide_left_mono) auto
  then have c1: "1 / (2::rat) ^ Suc (log2floor n) \<le> a" by (simp only: ax)
  have "1 / x < 1 / (2::rat) ^ log2floor n"
    using lo x1 by (intro divide_strict_left_mono) (auto intro: mult_pos_pos)
  then have c2: "a < 1 / (2::rat) ^ log2floor n" by (simp only: ax)
  show ?thesis by (simp only: q1 q2 c1 c2 simp_thms)
qed

lemma ilog2_bounds: "0 < a \<Longrightarrow> 2 powi (ilog2 a) \<le> a \<and> a < 2 powi (ilog2 a + 1)"
  using ilog2_ge1 [of a] ilog2_lt1 [of a] by (cases "1 \<le> a") auto

lemma ilog2_unique:
  assumes "0 < a" "2 powi e \<le> a" "a < 2 powi (e + 1)"
  shows "ilog2 a = e"
proof -
  from ilog2_bounds [OF assms(1)]
  have b: "2 powi (ilog2 a) \<le> a" "a < 2 powi (ilog2 a + 1)" by simp_all
  have "\<not> e + 1 \<le> ilog2 a"
  proof
    assume "e + 1 \<le> ilog2 a"
    then have "(2::rat) powi (e + 1) \<le> 2 powi (ilog2 a)" by (intro power_int_increasing) auto
    with b(1) assms(3) show False by linarith
  qed
  moreover have "\<not> ilog2 a + 1 \<le> e"
  proof
    assume "ilog2 a + 1 \<le> e"
    then have "(2::rat) powi (ilog2 a + 1) \<le> 2 powi e" by (intro power_int_increasing) auto
    with b(2) assms(2) show False by linarith
  qed
  ultimately show ?thesis by linarith
qed

lemma round_half_even_cases:
  "round_half_even q = \<lfloor>q\<rfloor> \<and> q - of_int \<lfloor>q\<rfloor> \<le> 1 / 2 \<or>
   round_half_even q = \<lfloor>q\<rfloor> + 1 \<and> 1 / 2 \<le> q - of_int \<lfloor>q\<rfloor>"
  unfolding round_half_even_def Let_def
  by (cases "q - of_int \<lfloor>q\<rfloor> < 1 / 2"; cases "1 / 2 < q - of_int \<lfloor>q\<rfloor>"; simp)

lemma round_half_even_bounds:
  "of_int (round_half_even q) \<le> q + 1 / 2 \<and> q - 1 / 2 \<le> of_int (round_half_even q)"
proof -
  have a: "of_int \<lfloor>q\<rfloor> \<le> q" "q < of_int \<lfloor>q\<rfloor> + 1" by linarith+
  from round_half_even_cases [of q] show ?thesis
  proof
    assume h: "round_half_even q = \<lfloor>q\<rfloor> \<and> q - of_int \<lfloor>q\<rfloor> \<le> 1 / 2"
    then have "rat_of_int (round_half_even q) = of_int \<lfloor>q\<rfloor>" by simp
    with h a show ?thesis by linarith
  next
    assume h: "round_half_even q = \<lfloor>q\<rfloor> + 1 \<and> 1 / 2 \<le> q - of_int \<lfloor>q\<rfloor>"
    then have "rat_of_int (round_half_even q) = of_int \<lfloor>q\<rfloor> + 1" by simp
    with h a show ?thesis by linarith
  qed
qed

lemma fl_zero: "fl 0 = Finite 0"
  by (simp add: fl_def)

lemma fl_finite_iff: "(\<exists>r. fl q = Finite r) \<longleftrightarrow> q = 0 \<or> \<bar>q\<bar> < overflow_threshold"
  by (auto simp add: fl_def Let_def)

lemma fl_normal:
  assumes "q \<noteq> 0" and lo: "2 powi e \<le> \<bar>q\<bar>" and hi: "\<bar>q\<bar> < 2 powi (e + 1)"
    and "- 1022 \<le> e" and "e \<le> 1022"
  shows "fl q = Finite (sgn q * (of_int (round_half_even (\<bar>q\<bar> / 2 powi (e - 52))) * 2 powi (e - 52)))"
proof -
  have pos: "0 < \<bar>q\<bar>" using assms(1) by simp
  have il: "ilog2 \<bar>q\<bar> = e" using ilog2_unique [OF pos lo hi] .
  have "(2::rat) powi (e + 1) \<le> 2 powi 1023"
    using assms(5) by (intro power_int_increasing) auto
  moreover have "(2::rat) powi 1023 < overflow_threshold"
    by (simp add: overflow_threshold_def)
  ultimately have "\<not> overflow_threshold \<le> \<bar>q\<bar>" using hi by linarith
  moreover have "max e (- 1022) = e" using assms(4) by simp
  ultimately show ?thesis using assms(1) by (simp add: fl_def Let_def il)
qed

lemma fl_range:
  assumes "fl q = Finite r"
  shows "\<bar>r\<bar> \<le> max_double"
proof (cases "q = 0")
  case True
  then have "r = 0" using assms by (simp add: fl_def)
  then show ?thesis by (simp add: max_double_def)
next
  case False
  define a where "a = \<bar>q\<bar>"
  define e0 where "e0 = ilog2 a"
  define e where "e = max e0 (- 1022)"
  define u where "u = (2::rat) powi (e - 52)"
  define m where "m = round_half_even (a / u)"
  have apos: "0 < a" using False by (simp add: a_def)
  have lt: "a < overflow_threshold"
    using assms False by (auto simp add: fl_def Let_def a_def split: if_splits)
  have r: "r = sgn q * (of_int m * u)"
    using assms False lt
    by (simp add: fl_def Let_def a_def e0_def e_def u_def m_def)
  have upos: "0 < u" by (simp add: u_def)
  have rb: "of_int m \<le> a / u + 1 / 2" "a / u - 1 / 2 \<le> of_int m"
    using round_half_even_bounds [of "a / u"] by (simp_all add: m_def)
  have "0 < a / u" using apos upos by simp
  then have "- 1 < rat_of_int m" using rb(2) by linarith
  then have mnn: "0 \<le> m" by linarith
  have absr: "\<bar>r\<bar> = of_int m * u"
    using False mnn upos by (simp add: r abs_mult abs_sgn_eq)
  have mu: "of_int m * u \<le> a + u / 2"
  proof -
    have "of_int m * u \<le> (a / u + 1 / 2) * u"
      using rb(1) upos by (intro mult_right_mono) auto
    also have "\<dots> = a + u / 2" using upos by (simp add: field_simps)
    finally show ?thesis .
  qed
  have eb: "2 powi e0 \<le> a" "a < 2 powi (e0 + 1)"
    using ilog2_bounds [OF apos] by (simp_all add: e0_def)
  have e0le: "e0 \<le> 1023"
  proof (rule ccontr)
    assume "\<not> e0 \<le> 1023"
    then have "1024 \<le> e0" by simp
    then have "(2::rat) powi 1024 \<le> 2 powi e0" by (intro power_int_increasing) auto
    moreover have "overflow_threshold < (2::rat) powi 1024"
      by (simp add: overflow_threshold_def)
    ultimately show False using eb(1) lt by linarith
  qed
  then have ele: "e \<le> 1023" by (simp add: e_def)
  have e0e: "e0 \<le> e" by (simp add: e_def)
  show ?thesis
  proof (cases "e \<le> 1022")
    case True
    have "(2::rat) powi (e0 + 1) \<le> 2 powi 1023"
      using e0e True by (intro power_int_increasing) auto
    then have a1: "a < 2 powi 1023" using eb(2) by linarith
    have u1: "u \<le> 2 powi 970"
      unfolding u_def using True by (intro power_int_increasing) auto
    have "(2::rat) powi 1023 + 2 powi 970 / 2 \<le> max_double"
      by (simp add: max_double_def)
    then show ?thesis using absr mu a1 u1 by linarith
  next
    case False
    then have e: "e = 1023" using ele by simp
    have u: "u = 2 ^ 971" by (simp add: u_def e)
    have "a / u < 2 ^ 53 - 1 / 2"
    proof -
      have "a / u < overflow_threshold / u"
        using lt upos by (intro divide_strict_right_mono) auto
      also have "overflow_threshold / u = 2 ^ 53 - 1 / 2"
        by (simp add: overflow_threshold_def u)
      finally show ?thesis .
    qed
    then have "rat_of_int m < 2 ^ 53" using rb(1) by linarith
    then have "rat_of_int m < rat_of_int (2 ^ 53)" by simp
    then have "m < 2 ^ 53" using of_int_less_iff by blast
    then have "m \<le> 2 ^ 53 - 1" by simp
    then have "rat_of_int m \<le> rat_of_int (2 ^ 53 - 1)" using of_int_le_iff by blast
    then have "rat_of_int m * u \<le> rat_of_int (2 ^ 53 - 1) * u"
      using upos by (intro mult_right_mono) auto
    also have "rat_of_int (2 ^ 53 - 1) * u = max_double"
      by (simp add: max_double_def u)
    finally show ?thesis using absr by simp
  qed
qed

lemma calculate_roi_unfold:
  "calculate_roi payload =
     (case payback_of payload of
        Inl err \<Rightarrow> Inl err
      | Inr payback \<Rightarrow>
          (case round2 (revenue_of payload) of
             Inl err \<Rightarrow> Inl err
           | Inr r1 \<Rightarrow>
               (case round2 (monthly_cost_of payload) of
                  Inl err \<Rightarrow> Inl err
                | Inr r2 \<Rightarrow>
                    (case round2 (profit_of payload) of
                       Inl err \<Rightarrow> Inl err
                     | Inr r3 \<Rightarrow>
                         Inr \<lparr>monthly_revenue = r1, monthly_cost = r2, monthly_profit = r3,
                              payback_months = payback\<rparr>))))"
  by (simp only: calculate_roi_def Let_def revenue_of_def monthly_cost_of_def profit_of_def
      payback_of_def)

lemma fl_in_range: "in_range (fl q)"
  using fl_range [of q] by (cases "fl q") (simp_all add: in_range_def)

lemma signed_inf_in_range: "in_range (signed_inf s)"
  by (simp add: signed_inf_def in_range_def)

lemma fmul_in_range: "in_range (fmul x y)"
  by (cases x; cases y) (simp_all add: fl_in_range signed_inf_in_range, simp_all add: in_range_def)

lemma fadd_in_range: "in_range (fadd x y)"
  by (cases x; cases y) (simp_all add: fl_in_range, simp_all add: in_range_def)

lemma fsub_in_range: "in_range (fsub x y)"
  by (simp add: fsub_def fadd_in_range)

lemma fdiv_in_range: "fdiv x y = Inr q \<Longrightarrow> in_range q"
  using fl_in_range signed_inf_in_range
  by (cases x; cases y) (auto simp add: in_range_def max_double_def split: if_splits)

lemma gt_zero_fdiv: "gt_zero y \<Longrightarrow> \<exists>q. fdiv x y = Inr q"
  by (cases x; cases y) auto

lemma round2_total: "in_range x \<Longrightarrow> \<exists>y. round2 x = Inr y"
proof (cases x)
  case (Finite r)
  assume "in_range x"
  then have r: "\<bar>r\<bar> \<le> max_double" by (simp add: in_range_def Finite)
  define v where "v = rat_of_int (round_half_even (r * 100)) / 100"
  have "rat_of_int (round_half_even (r * 100)) \<le> r * 100 + 1 / 2"
    "r * 100 - 1 / 2 \<le> rat_of_int (round_half_even (r * 100))"
    using round_half_even_bounds [of "r * 100"] by simp_all
  moreover have "v * 100 = rat_of_int (round_half_even (r * 100))" by (simp add: v_def)
  ultimately have "v \<le> r + 1 / 200" "r - 1 / 200 \<le> v" by linarith+
  then have "\<bar>v\<bar> \<le> max_double + 1 / 200" using r by linarith
  moreover have "max_double + 1 / 200 < overflow_threshold"
    by (simp add: max_double_def overflow_threshold_def)
  ultimately have "\<bar>v\<bar> < overflow_threshold" by linarith
  then obtain r' where "fl v = Finite r'" using fl_finite_iff [of v] by blast
  then show ?thesis by (simp add: Finite v_def)
qed simp_all

lemma payback_of_total:
  "\<exists>p. payback_of payload = Inr p \<and>
       (p \<noteq> None \<longleftrightarrow> gt_zero (profit_of payload) \<and> gt_zero (station_cost payload))"
proof (cases "gt_zero (profit_of payload) \<and> gt_zero (station_cost payload)")
  case True
  then obtain q where q: "fdiv (station_cost payload) (profit_of payload) = Inr q"
    using gt_zero_fdiv by blast
  obtain r where r: "round2 q = Inr r"
    using round2_total [OF fdiv_in_range [OF q]] by blast
  show ?thesis using True q r by (simp add: payback_of_def)
next
  case False
  then show ?thesis by (auto simp add: payback_of_def)
qed

lemma calculate_roi_total:
  "\<exists>out. calculate_roi payload = Inr out \<and>
     round2 (revenue_of payload) = Inr (monthly_revenue out) \<and>
     round2 (monthly_cost_of payload) = Inr (monthly_cost out) \<and>
     round2 (profit_of payload) = Inr (monthly_profit out) \<and>
     payback_of payload = Inr (payback_months out)"
proof -
  obtain r1 where r1: "round2 (revenue_of payload) = Inr r1"
    using round2_total [OF fmul_in_range] unfolding revenue_of_def by blast
  obtain r2 where r2: "round2 (monthly_cost_of payload) = Inr r2"
    using round2_total [OF fadd_in_range] unfolding monthly_cost_of_def by blast
  obtain r3 where r3: "round2 (profit_of payload) = Inr r3"
    using round2_total [OF fsub_in_range] unfolding profit_of_def by blast
  obtain p where p: "payback_of payload = Inr p"
    using payback_of_total by blast
  show ?thesis
    by (simp add: calculate_roi_unfold r1 r2 r3 p)
qed

lemma floor_rat_numeral: "\<lfloor>(numeral a :: rat) / numeral b\<rfloor> = numeral a div numeral b"
  using floor_divide_of_int_eq [of "numeral a" "numeral b", where ?'a = rat] by simp

lemmas fl_eval = round_half_even_def Let_def floor_rat_numeral

lemma fl_values:
  "fl 300 = Finite 300" "fl 6000 = Finite 6000" "fl 60000 = Finite 60000"
  "fl 36000 = Finite 36000" "fl 24000 = Finite 24000" "fl 30 = Finite 30"
  "fl (- 150) = Finite (- 150)"
  using fl_normal [of 300 8] fl_normal [of 6000 12] fl_normal [of 60000 15]
    fl_normal [of 36000 15] fl_normal [of 24000 14] fl_normal [of 30 4]
    fl_normal [of "- 150" 7]
  by (simp_all add: fl_eval)

lemma fl_25_6: "fl (25 / 6) = Finite (4691249611844267 / 1125899906842624)"
  using fl_normal [of "25 / 6" 2] by (simp add: fl_eval)

lemma fl_417: "fl (417 / 100) = Finite (2347501305766871 / 562949953421312)"
  using fl_normal [of "417 / 100" 2] by (simp add: fl_eval)

lemma fl_15_4096: "fl (15 / 4096) = Finite (15 / 4096)"
  using fl_normal [of "15 / 4096" "- 9"] by (simp add: fl_eval)

lemma fl_4096_15: "fl (4096 / 15) = Finite (4803839602528529 / 17592186044416)"
  using fl_normal [of "4096 / 15" 8] by (simp add: fl_eval)

lemma fl_27307: "fl (27307 / 100) = Finite (4803898243148677 / 17592186044416)"
  using fl_normal [of "27307 / 100" 8] by (simp add: fl_eval)

lemma example_roi_parts:
  "revenue_of example_roi = Finite 60000"
  "monthly_cost_of example_roi = Finite 36000"
  "profit_of example_roi = Finite 24000"
  by (simp_all add: revenue_of_def monthly_cost_of_def profit_of_def example_roi_def
      fsub_def fl_values)

lemma example_roi_payback: "payback_of example_roi = Inr (Some (fl (417 / 100)))"
proof -
  have "station_cost example_roi = Finite 100000" by (simp add: example_roi_def)
  then show ?thesis
    by (simp add: payback_of_def example_roi_parts fl_25_6 fl_417 fl_eval)
qed

lemma example_roi_result:
  "calculate_roi example_roi =
     Inr \<lparr>monthly_revenue = Finite 60000, monthly_cost = Finite 36000,
          monthly_profit = Finite 24000, payback_months = Some (fl (417 / 100))\<rparr>"
  by (simp add: calculate_roi_unfold example_roi_parts example_roi_payback fl_values fl_eval)

lemma thin_margin_roi_parts:
  "revenue_of thin_margin_roi = Finite (15 / 4096)"
  "monthly_cost_of thin_margin_roi = Finite 0"
  "profit_of thin_margin_roi = Finite (15 / 4096)"
  by (simp_all add: revenue_of_def monthly_cost_of_def profit_of_def thin_margin_roi_def
      fsub_def fl_values fl_zero fl_15_4096)

lemma thin_margin_roi_payback: "payback_of thin_margin_roi = Inr (Some (fl (27307 / 100)))"
proof -
  have "station_cost thin_margin_roi = Finite 1" by (simp add: thin_margin_roi_def)
  then show ?thesis
    by (simp add: payback_of_def thin_margin_roi_parts fl_4096_15 fl_27307 fl_eval)
qed

lemma thin_margin_roi_result:
  "calculate_roi thin_margin_roi =
     Inr \<lparr>monthly_revenue = Finite 0, monthly_cost = Finite 0,
          monthly_profit = Finite 0, payback_months = Some (fl (27307 / 100))\<rparr>"
  by (simp add: calculate_roi_unfold thin_margin_roi_parts thin_margin_roi_payback fl_zero
      fl_eval)


lemma payback_of_value:
  assumes "gt_zero (profit_of payload) \<and> gt_zero (station_cost payload)"
    and "payback_of payload = Inr p"
  shows "\<exists>q. fdiv (station_cost payload) (profit_of payload) = Inr q \<and> round2 q = Inr (the p)"
  using assms by (auto simp add: payback_of_def split: sum.splits)

text \<open>
  C1. The handler returns for every payload, and its outputs are the rounded unrounded
  intermediates: \<open>monthly_revenue = round(daily_sessions * 30 * avg_kwh_per_session *
  tariff_per_kwh, 2)\<close>, \<open>monthly_cost = round(daily_sessions * 30 * avg_kwh_per_session *
  cost_per_kwh + opex_per_month, 2)\<close> and \<open>monthly_profit = round(revenue - (energy_cost +
  opex_per_month), 2)\<close>, in float arithmetic, evaluated left to right. For 10 sessions a
  day, 20 kWh a session, tariff 10, cost 6, station cost 100000 and no opex the outputs are
  60000, 36000, 24000 and 4.17 (the float nearest to 417/100).
\<close>

theorem calculate_roi_outputs:
  "(\<exists>out. calculate_roi payload = Inr out \<and>
      round2 (fmul (fmul (fmul (daily_sessions payload) (Finite 30))
                (avg_kwh_per_session payload)) (tariff_per_kwh payload))
        = Inr (monthly_revenue out) \<and>
      round2 (fadd (fmul (fmul (fmul (daily_sessions payload) (Finite 30))
                (avg_kwh_per_session payload)) (cost_per_kwh payload))
              (opex_per_month payload))
        = Inr (monthly_cost out) \<and>
      round2 (fsub (fmul (fmul (fmul (daily_sessions payload) (Finite 30))
                      (avg_kwh_per_session payload)) (tariff_per_kwh payload))
                (fadd (fmul (fmul (fmul (daily_sessions payload) (Finite 30))
                        (avg_kwh_per_session payload)) (cost_per_kwh payload))
                   (opex_per_month payload)))
        = Inr (monthly_profit out)) \<and>
   calculate_roi example_roi =
     Inr \<lparr>monthly_revenue = Finite 60000, monthly_cost = Finite 36000,
          monthly_profit = Finite 24000, payback_months = Some (fl (417 / 100))\<rparr>"
  using calculate_roi_total [of payload] example_roi_result
  unfolding revenue_of_def monthly_cost_of_def profit_of_def by blast

theorem calculate_roi_outputs_witness:
  "\<not> isl (calculate_roi thin_margin_roi) \<and>
   round2 (Finite (15 / 4096)) = Inr (monthly_revenue (projr (calculate_roi thin_margin_roi))) \<and>
   monthly_revenue (projr (calculate_roi thin_margin_roi)) = Finite 0"
  using calculate_roi_outputs [of thin_margin_roi]
  by (simp add: thin_margin_roi_result fl_zero fl_eval)

text \<open>
  C2, as amended. \<open>payback_months\<close> is present exactly when the unrounded profit and the
  station cost are both greater than zero, and then it is
  \<open>round(station_cost / profit, 2)\<close> with the unrounded profit.
\<close>

theorem payback_present_iff:
  "\<exists>out. calculate_roi payload = Inr out \<and>
     (payback_months out \<noteq> None \<longleftrightarrow>
        gt_zero (profit_of payload) \<and> gt_zero (station_cost payload)) \<and>
     (gt_zero (profit_of payload) \<and> gt_zero (station_cost payload) \<longrightarrow>
        (\<exists>q. fdiv (station_cost payload) (profit_of payload) = Inr q \<and>
             round2 q = Inr (the (payback_months out))))"
proof -
  obtain out where out: "calculate_roi payload = Inr out"
    "payback_of payload = Inr (payback_months out)"
    using calculate_roi_total [of payload] by blast
  obtain p where p: "payback_of payload = Inr p"
    "p \<noteq> None \<longleftrightarrow> gt_zero (profit_of payload) \<and> gt_zero (station_cost payload)"
    using payback_of_total [of payload] by blast
  have pe: "p = payback_months out" using out(2) p(1) by simp
  show ?thesis
    using out(1) p(2) payback_of_value [of payload, OF _ out(2)] unfolding pe by blast
qed

theorem payback_present_iff_witness:
  "gt_zero (profit_of example_roi) \<and> gt_zero (station_cost example_roi) \<and>
   fdiv (station_cost example_roi) (profit_of example_roi) = Inr (fl (25 / 6)) \<and>
   round2 (fl (25 / 6)) = Inr (fl (417 / 100)) \<and>
   payback_months (projr (calculate_roi example_roi)) = Some (fl (417 / 100))"
proof -
  have "station_cost example_roi = Finite 100000" by (simp add: example_roi_def)
  then show ?thesis
    using payback_present_iff [of example_roi]
    by (simp add: example_roi_result example_roi_parts fl_25_6 fl_417 fl_eval)
qed

text \<open>
  C2 as stated fails when the profit is positive but rounds to zero: with one session a
  day of 1 kWh at tariff 1/8192, no costs and station cost 1, the returned
  \<open>monthly_profit\<close> is 0, not greater than zero, and \<open>payback_months\<close> is 273.07.
\<close>

theorem payback_without_reported_profit:
  "gt_zero (station_cost thin_margin_roi) \<and>
   \<not> isl (calculate_roi thin_margin_roi) \<and>
   payback_months (projr (calculate_roi thin_margin_roi)) = Some (fl (27307 / 100)) \<and>
   monthly_profit (projr (calculate_roi thin_margin_roi)) = Finite 0 \<and>
   \<not> gt_zero (monthly_profit (projr (calculate_roi thin_margin_roi)))"
proof -
  have "station_cost thin_margin_roi = Finite 1" by (simp add: thin_margin_roi_def)
  then show ?thesis by (simp add: thin_margin_roi_result)
qed




end
